theory Spec2Isabelle
  imports Complex_Main "HOL-Library.Word" "HOL-Library.Sublist"
begin

section \<open>Values shared by the device classes\<close>

text \<open>
  A \<open>QString\<close> is a \<^typ>\<open>string\<close>. The declarations of \<open>Song\<close>, \<open>CdAlbum\<close>,
  \<open>DeviceOptions\<close>, \<open>Covers::Image\<close> and \<open>Device::Status\<close> live in headers that are
  not among the sources; the records below list the fields the three source files read
  and write (the fields of a song and of an album carry the record's name as a prefix,
  since both have an \<open>artist\<close>). The duration of a \<open>Song\<close>, in seconds, is taken
  to be a \<open>quint16\<close>; its size holds the 32 bits of the \<open>int\<close> in which \<open>setDetails\<close>
  computes it. The device's own \<open>time\<close> field is a \<open>quint32\<close>.
\<close>

datatype songtype = Standard | Cdda

record song =
  songFile :: string
  songAlbum :: string
  songArtist :: string
  songAlbumartist :: string
  songTitle :: string
  songTime :: "16 word"
  songSize :: "32 word"
  songType :: songtype

definition emptySong :: song where
  "emptySong = \<lparr>songFile = [], songAlbum = [], songArtist = [], songAlbumartist = [],
     songTitle = [], songTime = 0, songSize = 0, songType = Standard\<rparr>"

record cdalbum =
  albumName :: string
  albumArtist :: string
  albumComposer :: string
  albumGenre :: string
  albumYear :: int
  albumDisc :: int
  tracks :: "song list"
  isDefault :: bool

record image =
  imgIsNull :: bool
  fileName :: string

record deviceoptions =
  scheme :: string
  vfatSafe :: bool
  asciiOnly :: bool
  ignoreThe :: bool
  replaceSpaces :: bool
  name :: string
  coverName :: string
  fixVariousArtists :: bool
  autoScan :: bool
  useCache :: bool
  transcoderCodec :: string
  transcoderValue :: int

text \<open>
  The status codes named in \<open>audiocddevice.cpp\<close>; \<open>JobStatus n\<close> stands for any other
  code an extraction job reports to \<open>copySongToResult\<close>.
\<close>

datatype status = Ok | NotConnected | SongExists | CodecNotAvailable | DirCreationFaild
  | JobStatus nat

datatype itemtype = Type_Root | Type_Artist | Type_Album | Type_Song

text \<open>
  A child of the device in the library tree. \<open>totalTime\<close> reads the song of every
  child through a \<open>static_cast\<close>, \<open>playTracks\<close> and its siblings test the item type
  first, so an item carries both.
\<close>

record libitem =
  itemType :: itemtype
  itemSong :: song

record encoder =
  codec :: string
  changeExtension :: "string \<Rightarrow> string"

text \<open>The arguments \<open>copySongTo\<close> hands to the constructor of \<open>ExtractJob\<close>.\<close>

record extractjob =
  jobCodec :: string
  jobValue :: int
  jobSource :: string
  jobDest :: string
  jobSong :: song
  jobCover :: string

text \<open>What the completion handler asks of the job that sent the signal.\<close>

record jobinfo =
  wasStarted :: bool
  coverCopied :: bool

text \<open>
  Signals emitted and calls made on collaborators, in the order the code makes them.
  \<open>ActionStatus s None\<close> is \<open>emit actionStatus(s)\<close> with the second argument left to
  its default.
\<close>

datatype event =
    ActionStatus status "bool option"
  | Progress int
  | JobStart extractjob
  | JobStop
  | JobFinished
  | SetFilePerms string
  | Matches string "cdalbum list"
  | Updating string bool
  | Play "song list"
  | UpdatedDetails "song list"
  | UpdateStatus
  | Lookup bool
  | Rescan bool
  | Renamed

text \<open>
  The fields of the base class \<open>Device\<close> that the two device classes use; each device
  record extends it, as the classes extend \<open>Device\<close>.
\<close>

record device =
  itemData :: string
  childItems :: "libitem list"
  update :: "libitem list option"
  opts :: deviceoptions
  jobAbortRequested :: bool
  needToFixVa :: bool
  currentDestFile :: string
  currentSong :: song
  statusMsg :: string

text \<open>Translation (\<open>tr\<close>) and \<open>QString::arg\<close> belong to Qt; they are parameters.\<close>

record qtenv =
  tr :: "string \<Rightarrow> string"
  trN :: "string \<Rightarrow> nat \<Rightarrow> string"
  arg :: "string \<Rightarrow> string \<Rightarrow> string"

subsection \<open>String helpers of \<open>QString\<close>\<close>

text \<open>\<open>QString::split\<close> keeping empty parts: the empty string splits into one empty part.\<close>

fun splitOn :: "char \<Rightarrow> string \<Rightarrow> string list" where
  "splitOn c [] = [[]]"
| "splitOn c (x # xs) =
     (if x = c then [] # splitOn c xs
      else (case splitOn c xs of [] \<Rightarrow> [[x]] | p # ps \<Rightarrow> (x # p) # ps))"

text \<open>\<open>line.section('=', 1, 1)\<close>: the second \<open>=\<close>-separated field, empty when there is none.\<close>

definition section1 :: "string \<Rightarrow> string" where
  "section1 line = (case splitOn (CHR ''='') line of a # f # rest \<Rightarrow> f | _ \<Rightarrow> [])"

text \<open>
  \<open>QString::lastIndexOf\<close>: the start of the last occurrence, \<open>None\<close> for Qt's \<open>-1\<close>.
  It is only called with a non-empty marker.
\<close>

fun lastIndexOf :: "string \<Rightarrow> string \<Rightarrow> nat option" where
  "lastIndexOf m [] = (if m = [] then Some 0 else None)"
| "lastIndexOf m (x # xs) =
     (case lastIndexOf m xs of
        Some i \<Rightarrow> Some (Suc i)
      | None \<Rightarrow> if prefix m (x # xs) then Some 0 else None)"

text \<open>\<open>QString::trimmed\<close> on the ASCII white space: tab, line feed, VT, FF, CR and space.\<close>

definition isSpace :: "char \<Rightarrow> bool" where
  "isSpace c = (c \<in> {CHR 0x09, CHR 0x0A, CHR 0x0B, CHR 0x0C, CHR 0x0D, CHR 0x20})"

definition trimmed :: "string \<Rightarrow> string" where
  "trimmed s = rev (dropWhile isSpace (rev (dropWhile isSpace s)))"

definition nl :: string where
  "nl = [CHR 0x0A]"


section \<open>AudioCdDevice\<close>

text \<open>
  The collaborators of \<open>AudioCdDevice\<close> whose code is elsewhere: the device's
  \<open>isConnected()\<close> and \<open>id()\<close>, the \<open>Song\<close> methods, the library model, the MPD
  connection, the encoders, the directory helpers of \<open>Utils\<close>, the cover service and
  the protocol prefix \<open>Song::constCddaProtocol\<close>.
\<close>

record cdenv = qtenv +
  cdIsConnected :: bool
  devId :: string
  isVariousArtists :: "song \<Rightarrow> bool"
  fixVa :: "song \<Rightarrow> song"
  revertVariousArtists :: "song \<Rightarrow> song"
  songExists :: "song \<Rightarrow> bool"
  mpdOpts :: deviceoptions
  getEncoder :: "string \<Rightarrow> encoder"
  mpdDir :: string
  isMopidy :: bool
  encodePath :: "string \<Rightarrow> string"
  getDir :: "string \<Rightarrow> string"
  dirExists :: "string \<Rightarrow> bool"
  absolutePath :: "string \<Rightarrow> string"
  createWorldReadableDir :: "string \<Rightarrow> string \<Rightarrow> bool"
  requestImage :: "song \<Rightarrow> image"
  formatTime :: "int \<Rightarrow> string"
  constCddaProtocol :: string

record audiocd = device +
  cdDevice :: string
  devPath :: string
  coverImage :: image
  cdAlbum :: string
  cdArtist :: string
  cdComposer :: string
  cdGenre :: string
  cdYear :: int
  cdDisc :: int
  cdTime :: "32 word"
  lookupInProcess :: bool
  autoPlay :: bool
  detailsString :: string

subsection \<open>Device names from URLs\<close>

definition constAnyDev :: string where
  "constAnyDev = ''-''"

text \<open>
  A \<open>QUrl\<close> as Qt has parsed it: its scheme, its path and the items of its query.
  \<open>QUrlQuery::queryItemValue\<close> gives the value of the first item with the key.
\<close>

record qurl =
  urlScheme :: string
  urlPath :: string
  urlQuery :: "(string \<times> string) list"

definition hasQueryItem :: "(string \<times> string) list \<Rightarrow> string \<Rightarrow> bool" where
  "hasQueryItem q k = (map_of q k \<noteq> None)"

definition queryItemValue :: "(string \<times> string) list \<Rightarrow> string \<Rightarrow> string" where
  "queryItemValue q k = (case map_of q k of Some v \<Rightarrow> v | None \<Rightarrow> [])"

definition marker :: string where
  "marker = ''/gvfs/cdda:host=''"

definition getDevice :: "qurl \<Rightarrow> string" where
  "getDevice url =
     (if ''cdda'' = urlScheme url then
        (if hasQueryItem (urlQuery url) ''dev'' then queryItemValue (urlQuery url) ''dev''
         else constAnyDev)
      else
        let path = urlPath url in
        if prefix ''/run/user/'' path then
          (case lastIndexOf marker path of
             Some pos \<Rightarrow> ''/dev/'' @ drop (pos + length marker) path
           | None \<Rightarrow> [])
        else [])"

text \<open>\<open>coverUrl\<close>: blank, line feed, tab, slash and colon become underscores.\<close>

definition coverUrl :: "cdenv \<Rightarrow> string \<Rightarrow> string" where
  "coverUrl env udi =
     constCddaProtocol env @
       map (\<lambda>c. if c = CHR '' '' \<or> c = CHR 0x0A \<or> c = CHR 0x09 \<or> c = CHR ''/'' \<or> c = CHR '':''
                then CHR ''_'' else c) udi"

subsection \<open>Construction\<close>

text \<open>
  The constructor. \<open>base\<close> holds what the constructor of \<open>Device\<close> has set up and the
  fields the initialiser list does not mention; \<open>block\<close> is the device of the block
  interface when Solid has one, \<open>udi\<close> the hardware identifier, \<open>cdAuto\<close> the setting
  passed to the \<open>lookup\<close> signal. Creating the lookup service and connecting signals
  leave the fields below as they are.
\<close>

definition deviceFromUdi :: "string \<Rightarrow> string" where
  "deviceFromUdi udi =
     (case filter (\<lambda>p. p \<noteq> []) (splitOn (CHR ''/'') udi) of
        [] \<Rightarrow> []
      | parts \<Rightarrow> ''/dev/'' @ hd (splitOn (CHR '':'') (last parts)))"

definition newAudioCdDevice ::
  "cdenv \<Rightarrow> audiocd \<Rightarrow> string option \<Rightarrow> string \<Rightarrow> bool \<Rightarrow> audiocd \<times> event list" where
  "newAudioCdDevice env base block udi cdAuto =
     (let st1 = base\<lparr>cdYear := 0, cdDisc := 0, cdTime := 0xFFFFFFFF,
                     lookupInProcess := False, autoPlay := False\<rparr>;
          st2 = st1\<lparr>cdDevice := (case block of Some d \<Rightarrow> d | None \<Rightarrow> deviceFromUdi udi)\<rparr>
      in
      if cdDevice st2 \<noteq> [] then
        (st2\<lparr>devPath := constCddaProtocol env @ cdDevice st2 @ ''/'',
              detailsString := tr env ''Reading disc'',
              statusMsg := tr env ''Reading disc'',
              lookupInProcess := True\<rparr>, [Lookup cdAuto])
      else (st2, []))"

subsection \<open>Copying a track\<close>

text \<open>
  \<open>copySongTo\<close>: every early \<open>return\<close> of the source is a branch; the job is created
  and started only on the last one.
\<close>

definition copySongTo ::
  "cdenv \<Rightarrow> song \<Rightarrow> string \<Rightarrow> bool \<Rightarrow> bool \<Rightarrow> audiocd \<Rightarrow> audiocd \<times> event list" where
  "copySongTo env s musicPath overwrite copyCover st0 =
     (let st1 = st0\<lparr>jobAbortRequested := False\<rparr> in
      if \<not> cdIsConnected env then (st1, [ActionStatus NotConnected None])
      else
        let st2 = st1\<lparr>needToFixVa := (fixVariousArtists (opts st1) \<and> isVariousArtists env s)\<rparr>;
            check = (if needToFixVa st2 then fixVa env s else s)
        in
        if \<not> overwrite \<and> songExists env check then (st2, [ActionStatus SongExists None])
        else
          let enc = getEncoder env (transcoderCodec (mpdOpts env)) in
          if codec enc = [] then (st2, [ActionStatus CodecNotAvailable None])
          else
            let source = cdDevice st2;
                baseDir = mpdDir env;
                st3 = st2\<lparr>currentDestFile := changeExtension enc (baseDir @ musicPath)\<rparr>;
                dir = getDir env (currentDestFile st3)
            in
            if \<not> dirExists env dir
               \<and> \<not> createWorldReadableDir env (absolutePath env dir) baseDir
            then (st3, [ActionStatus DirCreationFaild None])
            else
              let st4 = st3\<lparr>currentSong := s\<rparr>;
                  job = \<lparr>jobCodec = codec enc, jobValue = transcoderValue (mpdOpts env),
                         jobSource = source, jobDest = currentDestFile st4,
                         jobSong = currentSong st4,
                         jobCover = (if copyCover then fileName (coverImage st4) else [])\<rparr>
              in (st4, [JobStart job]))"

text \<open>
  \<open>percent\<close>: \<open>sender\<close> is the result of \<open>qobject_cast<FileJob *>(sender())\<close>, \<open>None\<close>
  when the cast yields no job.
\<close>

definition percent :: "jobinfo option \<Rightarrow> int \<Rightarrow> audiocd \<Rightarrow> event list" where
  "percent sender pc st =
     (if jobAbortRequested st \<and> 100 \<noteq> pc
      then (case sender of Some job \<Rightarrow> [JobStop] | None \<Rightarrow> [])
      else [Progress pc])"

text \<open>
  \<open>copySongToResult\<close>: the file system is the set of paths that exist;
  \<open>QFile::remove\<close> takes the path out of it. \<open>FileJob::finished(job)\<close> is the first
  event on every path.
\<close>

definition copySongToResult ::
  "cdenv \<Rightarrow> jobinfo option \<Rightarrow> status \<Rightarrow> audiocd \<Rightarrow> string set
     \<Rightarrow> audiocd \<times> string set \<times> event list" where
  "copySongToResult env sender st_code st fs =
     (if jobAbortRequested st then
        (case sender of
           Some job \<Rightarrow>
             if wasStarted job \<and> currentDestFile st \<in> fs
             then (st, fs - {currentDestFile st}, [JobFinished])
             else (st, fs, [JobFinished])
         | None \<Rightarrow> (st, fs, [JobFinished]))
      else if Ok \<noteq> st_code then (st, fs, [JobFinished, ActionStatus st_code None])
      else
        let f1 = drop (length (mpdDir env)) (currentDestFile st);
            f2 = (if isMopidy env then encodePath env f1 else f1);
            cs1 = (currentSong st)\<lparr>songFile := f2\<rparr>;
            cs2 = (if needToFixVa st then revertVariousArtists env cs1 else cs1)
        in (st\<lparr>currentSong := cs2\<rparr>, fs,
            [JobFinished, SetFilePerms (currentDestFile st),
             ActionStatus Ok
               (Some (case sender of Some job \<Rightarrow> coverCopied job | None \<Rightarrow> False))]))"

fun isActionStatus :: "event \<Rightarrow> bool" where
  "isActionStatus (ActionStatus s c) = True"
| "isActionStatus e = False"

fun isProgress :: "event \<Rightarrow> bool" where
  "isProgress (Progress p) = True"
| "isProgress e = False"

fun isJobStart :: "event \<Rightarrow> bool" where
  "isJobStart (JobStart j) = True"
| "isJobStart e = False"

subsection \<open>Total playing time\<close>

text \<open>
  \<open>totalTime\<close>: the loop adds the duration of every child, widened from 16 bits, to
  the \<open>quint32\<close> field, which wraps at \<open>2 ^ 32\<close>.
\<close>

definition sentinel :: "32 word" where
  "sentinel = 0xFFFFFFFF"

definition totalTime :: "audiocd \<Rightarrow> 32 word \<times> audiocd" where
  "totalTime st =
     (if sentinel = cdTime st then
        let st' = st\<lparr>cdTime :=
                     foldl (\<lambda>t i. t + ucast (songTime (itemSong i))) 0 (childItems st)\<rparr>
        in (cdTime st', st')
      else (cdTime st, st))"

subsection \<open>Disc details\<close>

text \<open>
  \<open>constBytesPerSecond\<close> is an \<open>int\<close>, and so are the sum \<open>totalDuration\<close> and the
  product that becomes the size of a track: both are formed in 32 bits (a product
  beyond \<open>2 ^ 31 - 1\<close>, for a track of more than 12173 seconds, is an overflow that
  wraps on the usual targets).
\<close>

definition constBytesPerSecond :: "32 word" where
  "constBytesPerSecond = 44100 * 4"

text \<open>
  The song list that \<open>playTracks\<close>, \<open>updateDetails\<close> and \<open>dequeue\<close> build.
  \<open>path()\<close> is declared in the header; it is read as the \<open>cdda\<close> prefix \<open>devPath\<close>.
\<close>

definition trackList :: "audiocd \<Rightarrow> song list" where
  "trackList st =
     map (\<lambda>i. (itemSong i)\<lparr>songFile := devPath st @ songFile (itemSong i)\<rparr>)
       (filter (\<lambda>i. Type_Song = itemType i) (childItems st))"

definition playTracks :: "audiocd \<Rightarrow> event list" where
  "playTracks st = (if trackList st \<noteq> [] then [Play (trackList st)] else [])"

definition updateDetails :: "audiocd \<Rightarrow> event list" where
  "updateDetails st = (if trackList st \<noteq> [] then [UpdatedDetails (trackList st)] else [])"

definition setCover :: "image \<Rightarrow> audiocd \<Rightarrow> audiocd \<times> event list" where
  "setCover img st = (st\<lparr>coverImage := img\<rparr>, [UpdateStatus])"

definition setDetails :: "cdenv \<Rightarrow> cdalbum \<Rightarrow> audiocd \<Rightarrow> audiocd \<times> event list" where
  "setDetails env a st0 =
     (let differentAlbum = (cdAlbum st0 \<noteq> albumName a \<or> cdArtist st0 \<noteq> albumArtist a);
          totalDuration = foldl (\<lambda>d s. d + ucast (songTime s)) (0 :: 32 word) (tracks a);
          st1 = st0\<lparr>lookupInProcess := False, itemData := albumArtist a,
                     cdAlbum := albumName a, cdArtist := albumArtist a,
                     cdComposer := albumComposer a, cdGenre := albumGenre a,
                     cdYear := albumYear a, cdDisc := albumDisc a,
                     update := Some (map (\<lambda>s. \<lparr>itemType = Type_Song,
                         itemSong = s\<lparr>songSize := ucast (songTime s) * constBytesPerSecond\<rparr>\<rparr>)
                       (tracks a)),
                     statusMsg := [],
                     detailsString := arg env (trN env ''%n Tracks (%1)'' (length (tracks a)))
                                        (formatTime env (sint totalDuration))\<rparr>;
          ev1 = [Updating (devId env) False];
          (st2, ev2) =
            (if differentAlbum \<and> \<not> isDefault a then
               let s = emptySong\<lparr>songArtist := cdArtist st1, songAlbumartist := cdArtist st1,
                         songAlbum := cdAlbum st1, songFile := coverUrl env (devId env),
                         songTitle := devId env, songType := Cdda\<rparr>;
                   img = requestImage env s
               in if \<not> imgIsNull img then setCover img st1 else (st1, [])
             else (st1, []))
      in
      if autoPlay st2 then
        let st3 = st2\<lparr>autoPlay := False\<rparr> in (st3, ev1 @ ev2 @ playTracks st3)
      else (st2, ev1 @ ev2 @ updateDetails st2))"

definition cdMatches :: "cdenv \<Rightarrow> cdalbum list \<Rightarrow> audiocd \<Rightarrow> audiocd \<times> event list" where
  "cdMatches env albums st0 =
     (let st1 = st0\<lparr>lookupInProcess := False\<rparr> in
      if 1 = length albums then setDetails env (hd albums) st1
      else if length albums > 1 then (st1, [Matches (devId env) albums])
      else (st1, []))"

section \<open>UmsDevice\<close>

text \<open>
  What \<open>UmsDevice\<close> reads from outside: the state of the Solid device and of its
  storage access, the files and directories of the mounted file system,
  \<open>FsDevice::readOpts\<close>, the helpers of \<open>Utils\<close>, and the constants that
  \<open>fsdevice.h\<close> declares (the keys of the settings file other than \<open>audio_folder\<close>
  and \<open>collection_name\<close>, the name of the secondary settings file and the default
  cover name). \<open>readLines p\<close> is the sequence of lines \<open>QTextStream::readLine\<close>
  yields for the file \<open>p\<close>, \<open>None\<close> when it cannot be opened for reading;
  \<open>canWrite p\<close> says that opening \<open>p\<close> for writing succeeds.
\<close>

record umsenv = qtenv +
  solidDevValid :: bool
  accessPresent :: bool
  accessValid :: bool
  accessAccessible :: bool
  readOpts :: "string \<Rightarrow> deviceoptions \<Rightarrow> bool \<times> deviceoptions"
  readLines :: "string \<Rightarrow> string list option"
  canWrite :: "string \<Rightarrow> bool"
  umsDirExists :: "string \<Rightarrow> bool"
  cleanPath :: "string \<Rightarrow> string"
  formatByteSize :: "int \<Rightarrow> string"
  constMusicFilenameSchemeKey :: string
  constVfatSafeKey :: string
  constAsciiOnlyKey :: string
  constIgnoreTheKey :: string
  constReplaceSpacesKey :: string
  constCantataSettingsFile :: string
  constDefCoverFileName :: string

text \<open>
  The fields of \<open>UmsDevice\<close> and of \<open>FsDevice\<close>; \<open>spacePath\<close>, \<open>spaceSize\<close> and
  \<open>spaceUsed\<close> are what \<open>spaceInfo\<close> reports.
\<close>

record umsdevice = device +
  audioFolder :: string
  defaultName :: string
  unusedParams :: "string list"
  configured :: bool
  scanned :: bool
  cacheProgress :: int
  spacePath :: string
  spaceSize :: int
  spaceUsed :: int

definition constSettingsFile :: string where
  "constSettingsFile = ''/.is_audio_player''"

definition constMusicFolderKey :: string where
  "constMusicFolderKey = ''audio_folder''"

definition constCollectionNameKey :: string where
  "constCollectionNameKey = ''collection_name''"

definition isConnected :: "umsenv \<Rightarrow> bool" where
  "isConnected env =
     (solidDevValid env \<and> accessPresent env \<and> accessValid env \<and> accessAccessible env)"

subsection \<open>Capacity\<close>

text \<open>
  The \<open>double\<close> results are read as real numbers: \<open>-1.0\<close> is exact, and the quotients
  are the exact quotients of the integers the code divides.
\<close>

definition usedCapacity :: "umsenv \<Rightarrow> umsdevice \<Rightarrow> real" where
  "usedCapacity env st =
     (if cacheProgress st > -1 then (real_of_int (cacheProgress st) * 1) / 100
      else if \<not> isConnected env then -1
      else if spaceSize st > 0
           then (real_of_int (spaceUsed st) * 1) / (real_of_int (spaceSize st) * 1)
           else -1)"

definition capacityString :: "umsenv \<Rightarrow> umsdevice \<Rightarrow> string" where
  "capacityString env st =
     (if cacheProgress st > -1 then statusMsg st
      else if \<not> isConnected env then tr env ''Not Connected''
      else arg env (tr env ''%1 free'') (formatByteSize env (spaceSize st - spaceUsed st)))"

definition freeSpace :: "umsenv \<Rightarrow> umsdevice \<Rightarrow> int" where
  "freeSpace env st = (if \<not> isConnected env then 0 else spaceSize st - spaceUsed st)"

subsection \<open>Reading the settings file\<close>

text \<open>
  One turn of the loop of \<open>setup\<close>: the pair is the local \<open>audioFolderSetting\<close> and
  the device.
\<close>

definition setupLine ::
  "umsenv \<Rightarrow> string \<Rightarrow> string \<times> umsdevice \<Rightarrow> string \<Rightarrow> string \<times> umsdevice" where
  "setupLine env path acc line =
     (case acc of (audioFolderSetting, st) \<Rightarrow>
        if prefix (constMusicFolderKey @ ''='') line then
          let af = cleanPath env (path @ ''/'' @ section1 line)
          in (af, st\<lparr>audioFolder := (if \<not> umsDirExists env af then path else af)\<rparr>)
        else if prefix (constMusicFilenameSchemeKey env @ ''='') line then
          let sch = section1 line
          in (audioFolderSetting,
              if sch \<noteq> [] then st\<lparr>opts := (opts st)\<lparr>scheme := sch\<rparr>\<rparr> else st)
        else if prefix (constVfatSafeKey env @ ''='') line then
          (audioFolderSetting, st\<lparr>opts := (opts st)\<lparr>vfatSafe := (''true'' = section1 line)\<rparr>\<rparr>)
        else if prefix (constAsciiOnlyKey env @ ''='') line then
          (audioFolderSetting, st\<lparr>opts := (opts st)\<lparr>asciiOnly := (''true'' = section1 line)\<rparr>\<rparr>)
        else if prefix (constIgnoreTheKey env @ ''='') line then
          (audioFolderSetting, st\<lparr>opts := (opts st)\<lparr>ignoreThe := (''true'' = section1 line)\<rparr>\<rparr>)
        else if prefix (constReplaceSpacesKey env @ ''='') line then
          (audioFolderSetting,
           st\<lparr>opts := (opts st)\<lparr>replaceSpaces := (''true'' = section1 line)\<rparr>\<rparr>)
        else if prefix (constCollectionNameKey @ ''='') line then
          (audioFolderSetting, st\<lparr>opts := (opts st)\<lparr>name := trimmed (section1 line)\<rparr>\<rparr>)
        else (audioFolderSetting, st\<lparr>unusedParams := unusedParams st @ [line]\<rparr>))"

definition standardDirs :: "string list" where
  "standardDirs = [''Music'', ''MUSIC'', ''Albums'', ''ALBUMS'']"

text \<open>
  \<open>UmsDevice::setup\<close>, named \<open>setup_ums\<close> since the bare word is taken, in the four
  steps of the source: reading the file, the defaults after reading, the choice of the
  audio folder, and the scan and the rename. \<open>rescan(false)\<close> is a method of
  \<open>FsDevice\<close>: it appears as the event \<open>Rescan False\<close>; \<open>setStatusMessage\<close> and
  \<open>setData\<close> store the text.
\<close>

definition readSettings :: "umsenv \<Rightarrow> string \<Rightarrow> umsdevice \<Rightarrow> string \<times> umsdevice" where
  "readSettings env path st =
     (case readLines env (path @ constSettingsFile) of
        Some ls \<Rightarrow> foldl (setupLine env path) ([], st\<lparr>configured := True\<rparr>) ls
      | None \<Rightarrow> ([], st))"

definition settingsDefaults :: "umsenv \<Rightarrow> bool \<Rightarrow> umsdevice \<Rightarrow> umsdevice" where
  "settingsDefaults env haveOpts st3 =
     (let st4 = (if \<not> configured st3 then st3\<lparr>configured := haveOpts\<rparr> else st3)
      in if coverName (opts st4) = []
         then st4\<lparr>opts := (opts st4)\<lparr>coverName := constDefCoverFileName env\<rparr>\<rparr>
         else st4)"

definition resolveAudioFolder :: "umsenv \<Rightarrow> string \<Rightarrow> string \<Rightarrow> umsdevice \<Rightarrow> umsdevice" where
  "resolveAudioFolder env path audioFolderSetting st5 =
     (let st6 = (if audioFolderSetting = [] \<or> audioFolderSetting \<noteq> audioFolder st5 then
                   (case List.find (\<lambda>d. umsDirExists env (path @ d)) standardDirs of
                      Some d \<Rightarrow> st5\<lparr>audioFolder := path @ d\<rparr>
                    | None \<Rightarrow> st5)
                 else st5)
      in if \<not> suffix ''/'' (audioFolder st6)
         then st6\<lparr>audioFolder := audioFolder st6 @ ''/''\<rparr> else st6)"

definition scanAndRename :: "umsenv \<Rightarrow> string \<Rightarrow> umsdevice \<Rightarrow> umsdevice \<times> event list" where
  "scanAndRename env n st7 =
     (let (st8, ev) = (if autoScan (opts st7) \<or> scanned st7 then (st7, [Rescan False])
                       else (st7\<lparr>statusMsg := tr env ''Not Scanned''\<rparr>, []))
      in if name (opts st8) \<noteq> [] \<and> name (opts st8) \<noteq> n
         then (st8\<lparr>itemData := name (opts st8)\<rparr>, ev @ [Renamed])
         else (st8, ev))"

definition setup_ums :: "umsenv \<Rightarrow> umsdevice \<Rightarrow> umsdevice \<times> event list" where
  "setup_ums env st0 =
     (if \<not> isConnected env then (st0, [])
      else
        let path = spacePath st0;
            st1 = st0\<lparr>audioFolder := path\<rparr>;
            n = itemData st1;
            (haveOpts, ropts) = readOpts env (path @ constCantataSettingsFile env) (opts st1);
            (audioFolderSetting, st3) = readSettings env path (st1\<lparr>opts := ropts\<rparr>)
        in scanAndRename env n
             (resolveAudioFolder env path audioFolderSetting
                (settingsDefaults env haveOpts st3)))"

subsection \<open>Writing the settings file\<close>

definition toString :: "bool \<Rightarrow> string" where
  "toString b = (if b then ''true'' else ''false'')"

text \<open>
  The lines \<open>saveOptions\<close> writes before the unused ones, each without its line feed,
  in the order of the source and under the conditions of the source. \<open>def\<close> is the
  default-constructed \<open>DeviceOptions\<close>.
\<close>

definition optionLines :: "umsenv \<Rightarrow> deviceoptions \<Rightarrow> umsdevice \<Rightarrow> string list" where
  "optionLines env def st =
     (let path = spacePath st;
          fixedPath = (if prefix path (audioFolder st)
                       then ''./'' @ drop (length path) (audioFolder st)
                       else audioFolder st)
      in
        (if fixedPath \<noteq> [] then [constMusicFolderKey @ ''='' @ fixedPath] else []) @
        (if scheme (opts st) \<noteq> scheme def
         then [constMusicFilenameSchemeKey env @ ''='' @ scheme (opts st)] else []) @
        (if scheme (opts st) \<noteq> scheme def
         then [constVfatSafeKey env @ ''='' @ toString (vfatSafe (opts st))] else []) @
        (if asciiOnly (opts st) \<noteq> asciiOnly def
         then [constAsciiOnlyKey env @ ''='' @ toString (asciiOnly (opts st))] else []) @
        (if ignoreThe (opts st) \<noteq> ignoreThe def
         then [constIgnoreTheKey env @ ''='' @ toString (ignoreThe (opts st))] else []) @
        (if replaceSpaces (opts st) \<noteq> replaceSpaces def
         then [constReplaceSpacesKey env @ ''='' @ toString (replaceSpaces (opts st))] else []) @
        (if name (opts st) \<noteq> [] \<and> name (opts st) \<noteq> defaultName st
         then [constCollectionNameKey @ ''='' @ name (opts st)] else []))"

text \<open>
  \<open>saveOptions\<close>: the text written to the settings file, \<open>None\<close> when the device is not
  connected or the file cannot be opened, in which case nothing is written.
\<close>

definition saveOptions :: "umsenv \<Rightarrow> deviceoptions \<Rightarrow> umsdevice \<Rightarrow> string option" where
  "saveOptions env def st =
     (if \<not> isConnected env then None
      else if canWrite env (spacePath st @ constSettingsFile)
      then Some (concat (map (\<lambda>l. l @ nl) (optionLines env def st))
                 @ concat (map (\<lambda>u. u @ nl) (unusedParams st)))
      else None)"

text \<open>A line is recognised by \<open>setup\<close> when it starts with one of the seven keys and \<open>=\<close>.\<close>

definition recognised :: "umsenv \<Rightarrow> string \<Rightarrow> bool" where
  "recognised env line =
     list_ex (\<lambda>k. prefix (k @ ''='') line)
       [constMusicFolderKey, constMusicFilenameSchemeKey env, constVfatSafeKey env,
        constAsciiOnlyKey env, constIgnoreTheKey env, constReplaceSpacesKey env,
        constCollectionNameKey]"

section \<open>Concrete devices\<close>

text \<open>
  A disc in \<open>/dev/sr0\<close> and a mounted player, with simple stand-ins for the
  collaborators; the closed theorems below evaluate the code on them.
\<close>

definition exOptions :: deviceoptions where
  "exOptions = \<lparr>scheme = ''%artist%/%title%'', vfatSafe = True, asciiOnly = False,
     ignoreThe = False, replaceSpaces = False, name = [], coverName = ''cover.jpg'',
     fixVariousArtists = True, autoScan = False, useCache = True,
     transcoderCodec = ''ogg'', transcoderValue = 5\<rparr>"

definition exSong :: song where
  "exSong = \<lparr>songFile = ''1.wav'', songAlbum = ''Album'', songArtist = ''Artist'',
     songAlbumartist = ''Various Artists'', songTitle = ''Known'', songTime = 120,
     songSize = 0, songType = Cdda\<rparr>"

definition exCdEnv :: cdenv where
  "exCdEnv = \<lparr>tr = (\<lambda>s. s), trN = (\<lambda>s n. s), arg = (\<lambda>s a. s @ a),
     cdIsConnected = True, devId = ''sr0'',
     isVariousArtists = (\<lambda>s. songAlbumartist s = ''Various Artists''),
     fixVa = (\<lambda>s. s\<lparr>songArtist := ''Various Artists''\<rparr>),
     revertVariousArtists = (\<lambda>s. s),
     songExists = (\<lambda>s. songTitle s = ''Known'' \<and> songArtist s = ''Various Artists''),
     mpdOpts = exOptions,
     getEncoder = (\<lambda>c. \<lparr>codec = c, changeExtension = (\<lambda>p. p @ ''.ogg'')\<rparr>),
     mpdDir = ''/music/'', isMopidy = False, encodePath = (\<lambda>p. p),
     getDir = (\<lambda>p. ''/music''), dirExists = (\<lambda>d. True), absolutePath = (\<lambda>d. d),
     createWorldReadableDir = (\<lambda>d b. True),
     requestImage = (\<lambda>s. \<lparr>imgIsNull = True, fileName = []\<rparr>),
     formatTime = (\<lambda>n. []), constCddaProtocol = ''cdda://''\<rparr>"

definition exCd :: audiocd where
  "exCd = \<lparr>itemData = ''Audio CD'', childItems = [], update = None, opts = exOptions,
     jobAbortRequested = True, needToFixVa = False, currentDestFile = ''/music/a.ogg'',
     currentSong = exSong, statusMsg = [], cdDevice = ''/dev/sr0'',
     devPath = ''cdda:///dev/sr0/'', coverImage = \<lparr>imgIsNull = True, fileName = []\<rparr>,
     cdAlbum = [], cdArtist = [], cdComposer = [], cdGenre = [], cdYear = 0, cdDisc = 0,
     cdTime = 0xFFFFFFFF, lookupInProcess = True, autoPlay = False,
     detailsString = ''Reading disc''\<rparr>"

definition exJob :: jobinfo where
  "exJob = \<lparr>wasStarted = True, coverCopied = False\<rparr>"

definition exAlbum :: cdalbum where
  "exAlbum = \<lparr>albumName = ''Album'', albumArtist = ''Artist'', albumComposer = [],
     albumGenre = [], albumYear = 2001, albumDisc = 1, tracks = [exSong], isDefault = False\<rparr>"

text \<open>Two tracks of 120 and 200 seconds, and one as long as a duration can be.\<close>

definition exTrack1 :: libitem where
  "exTrack1 = \<lparr>itemType = Type_Song, itemSong = exSong\<lparr>songTime := 120\<rparr>\<rparr>"

definition exTrack2 :: libitem where
  "exTrack2 = \<lparr>itemType = Type_Song, itemSong = exSong\<lparr>songTime := 200\<rparr>\<rparr>"

definition exLongItem :: libitem where
  "exLongItem = \<lparr>itemType = Type_Song, itemSong = exSong\<lparr>songTime := 65535\<rparr>\<rparr>"

definition exUrlDev :: qurl where
  "exUrlDev = \<lparr>urlScheme = ''cdda'', urlPath = ''/'', urlQuery = [(''dev'', ''/dev/sr1'')]\<rparr>"

definition exUrlBare :: qurl where
  "exUrlBare = \<lparr>urlScheme = ''cdda'', urlPath = [], urlQuery = []\<rparr>"

definition exUrlGvfs :: qurl where
  "exUrlGvfs = \<lparr>urlScheme = ''file'', urlPath = ''/run/user/1000/gvfs/cdda:host=sr0'',
     urlQuery = []\<rparr>"

text \<open>
  A player mounted at \<open>/mnt/usb/\<close> with a \<open>Music\<close> folder, whose settings file holds
  the three lines of \<open>exSettings\<close>. The keys that \<open>fsdevice.h\<close> declares are given
  values here; \<open>vfat_safe\<close> is the one the specification spells out.
\<close>

definition exSettings :: "string list" where
  "exSettings = [''audio_folder=Music'', ''vfat_safe=true'', ''# my player'']"

definition exUmsEnv :: umsenv where
  "exUmsEnv = \<lparr>tr = (\<lambda>s. s), trN = (\<lambda>s n. s), arg = (\<lambda>s a. s @ a),
     solidDevValid = True, accessPresent = True, accessValid = True,
     accessAccessible = True,
     readOpts = (\<lambda>p ops. (False, ops)),
     readLines = (\<lambda>p. if p = ''/mnt/usb//.is_audio_player'' then Some exSettings else None),
     canWrite = (\<lambda>p. True),
     umsDirExists = (\<lambda>d. d = ''/mnt/usb/Music''),
     cleanPath = (\<lambda>p. if p = ''/mnt/usb//Music'' then ''/mnt/usb/Music'' else p),
     formatByteSize = (\<lambda>n. ''some bytes''),
     constMusicFilenameSchemeKey = ''music_filenamescheme'',
     constVfatSafeKey = ''vfat_safe'',
     constAsciiOnlyKey = ''ascii_only'',
     constIgnoreTheKey = ''ignore_the'',
     constReplaceSpacesKey = ''replace_spaces'',
     constCantataSettingsFile = ''/.cantata'',
     constDefCoverFileName = ''cover.jpg''\<rparr>"

definition exUms :: umsdevice where
  "exUms = \<lparr>itemData = ''Player'', childItems = [], update = None,
     opts = exOptions\<lparr>vfatSafe := False\<rparr>,
     jobAbortRequested = False, needToFixVa = False, currentDestFile = [],
     currentSong = exSong, statusMsg = ''Saving cache'', audioFolder = ''/mnt/usb/Music/'',
     defaultName = ''Player'', unusedParams = [], configured = False, scanned = False,
     cacheProgress = -1, spacePath = ''/mnt/usb/'', spaceSize = 1000, spaceUsed = 250\<rparr>"

section \<open>Properties of AudioCdDevice\<close>

subsection \<open>Progress while an abort is pending\<close>

text \<open>
  Claim C5. While an abort has been requested, \<open>percent(pc)\<close> with \<open>pc\<close> other than 100
  asks the sending job to stop and emits no \<open>progress\<close> signal, whoever the sender is;
  with \<open>pc = 100\<close>, or with no abort pending, it forwards \<open>pc\<close> through \<open>progress\<close> and
  does nothing else.
\<close>

theorem percent_abort_policy:
  "(jobAbortRequested st \<and> pc \<noteq> 100 \<longrightarrow>
       percent (Some job) pc st = [JobStop] \<and> \<not> list_ex isProgress (percent sender pc st))
   \<and> (pc = 100 \<or> \<not> jobAbortRequested st \<longrightarrow> percent sender pc st = [Progress pc])"
  by (auto simp: percent_def split: option.splits)

theorem percent_abort_policy_witness:
  "jobAbortRequested exCd \<and> percent (Some exJob) 40 exCd = [JobStop]
   \<and> \<not> list_ex isProgress (percent None 40 exCd)
   \<and> percent (Some exJob) 100 exCd = [Progress 100]"
  using percent_abort_policy [of exCd 40 exJob None]
    percent_abort_policy [of exCd 100 exJob "Some exJob"]
  by (simp add: exCd_def)

subsection \<open>Completion of an aborted job\<close>

text \<open>
  Claim C4. When the completion handler \<open>copySongToResult\<close> runs with the abort flag
  set, it emits no \<open>actionStatus\<close> whatever the job reported, it removes the
  destination file exactly when the sender is a job that was started and the file
  exists, and it leaves the device as it was.
\<close>

theorem copySongToResult_aborted:
  assumes "jobAbortRequested st"
  shows "\<not> list_ex isActionStatus (snd (snd (copySongToResult env sender code st fs)))
    \<and> fst (snd (copySongToResult env sender code st fs)) =
        (if (case sender of Some job \<Rightarrow> wasStarted job | None \<Rightarrow> False)
            \<and> currentDestFile st \<in> fs
         then fs - {currentDestFile st} else fs)
    \<and> fst (copySongToResult env sender code st fs) = st"
  using assms by (simp add: copySongToResult_def split: option.splits)

theorem copySongToResult_aborted_witness:
  "jobAbortRequested exCd
   \<and> snd (snd (copySongToResult exCdEnv (Some exJob) Ok exCd
                 {''/music/a.ogg'', ''/music/b.ogg''})) = [JobFinished]
   \<and> fst (snd (copySongToResult exCdEnv (Some exJob) Ok exCd
                 {''/music/a.ogg'', ''/music/b.ogg''})) = {''/music/b.ogg''}"
proof -
  let ?fs = "{''/music/a.ogg'', ''/music/b.ogg''}"
  have a: "jobAbortRequested exCd" by (simp add: exCd_def)
  have f: "currentDestFile exCd = ''/music/a.ogg''" by (simp add: exCd_def)
  have e: "snd (snd (copySongToResult exCdEnv (Some exJob) Ok exCd ?fs)) = [JobFinished]"
    by (simp add: copySongToResult_def a f exJob_def)
  from copySongToResult_aborted [OF a, of exCdEnv "Some exJob" Ok ?fs]
  have "fst (snd (copySongToResult exCdEnv (Some exJob) Ok exCd ?fs)) = {''/music/b.ogg''}"
    by (simp add: f exJob_def)
  with a e show ?thesis by simp
qed

subsection \<open>A new copy clears an old abort\<close>

text \<open>
  Claim C10. On every path through \<open>copySongTo\<close>, also the ones that return early, the
  device comes out with its abort flag cleared. Hence on the device as \<open>copySongTo\<close>
  leaves it, whatever the flag was before, \<open>percent\<close> forwards the progress value, and
  \<open>copySongToResult\<close> removes no file and emits a status.
\<close>

theorem copySongTo_clears_abort:
  "\<not> jobAbortRequested (fst (copySongTo env s p ow cc st))
   \<and> percent sender pc (fst (copySongTo env s p ow cc st)) = [Progress pc]
   \<and> fst (snd (copySongToResult env sender code (fst (copySongTo env s p ow cc st)) fs)) = fs
   \<and> list_ex isActionStatus
        (snd (snd (copySongToResult env sender code (fst (copySongTo env s p ow cc st)) fs)))"
proof -
  have a: "\<not> jobAbortRequested (fst (copySongTo env s p ow cc st))"
    by (simp add: copySongTo_def Let_def)
  show ?thesis using a
    by (simp add: percent_def copySongToResult_def Let_def)
qed

subsection \<open>A song that is already in the collection\<close>

text \<open>
  Claim C3. On a connected device, \<open>copySongTo\<close> with \<open>overwrite = false\<close> for a song
  that the managed collection already holds -- the song itself, or its
  various-artists form when the device's fix-various-artists option is on and the song
  is a various-artists track -- emits \<open>SongExists\<close> and nothing else: no job is created
  or started.
\<close>

theorem copySongTo_song_exists:
  assumes "cdIsConnected env" and "\<not> overwrite"
    and "songExists env
           (if fixVariousArtists (opts st) \<and> isVariousArtists env s then fixVa env s else s)"
  shows "snd (copySongTo env s p overwrite cc st) = [ActionStatus SongExists None]
     \<and> \<not> list_ex isJobStart (snd (copySongTo env s p overwrite cc st))"
  using assms by (simp add: copySongTo_def Let_def)

theorem copySongTo_song_exists_witness:
  "cdIsConnected exCdEnv
   \<and> songExists exCdEnv (fixVa exCdEnv exSong)
   \<and> snd (copySongTo exCdEnv exSong ''a'' False True exCd) = [ActionStatus SongExists None]"
proof -
  have c: "cdIsConnected exCdEnv" by (simp add: exCdEnv_def)
  have e: "songExists exCdEnv
             (if fixVariousArtists (opts exCd) \<and> isVariousArtists exCdEnv exSong
              then fixVa exCdEnv exSong else exSong)"
    by (simp add: exCdEnv_def exCd_def exSong_def exOptions_def)
  have e': "songExists exCdEnv (fixVa exCdEnv exSong)"
    by (simp add: exCdEnv_def exCd_def exSong_def exOptions_def)
  from copySongTo_song_exists [OF c _ e, of False "''a''" True] c e' show ?thesis by simp
qed

subsection \<open>The cached total time\<close>

lemma foldl_add_times:
  "foldl (\<lambda>t i. t + ucast (songTime (itemSong i))) a xs
     = a + (of_nat (sum_list (map (\<lambda>i. unat (songTime (itemSong i))) xs)) :: 32 word)"
  by (induction xs arbitrary: a) (simp_all add: add.assoc)

lemma cdTime_new: "cdTime (fst (newAudioCdDevice env base block udi cdAuto)) = 0xFFFFFFFF"
  by (simp add: newAudioCdDevice_def Let_def)

lemma durations_bound:
  "sum_list (map (\<lambda>i. unat (songTime (itemSong i))) xs) \<le> length xs * 65535"
proof (induction xs)
  case Nil
  show ?case by simp
next
  case (Cons x xs)
  have "unat (songTime (itemSong x)) < 2 ^ 16"
    using unsigned_less [of "songTime (itemSong x)"] by simp
  with Cons show ?case by simp
qed

lemma durations_not_sentinel:
  assumes "length xs \<le> 65536"
  shows "unat (of_nat (sum_list (map (\<lambda>i. unat (songTime (itemSong i))) xs)) :: 32 word)
           = sum_list (map (\<lambda>i. unat (songTime (itemSong i))) xs)"
    and "(of_nat (sum_list (map (\<lambda>i. unat (songTime (itemSong i))) xs)) :: 32 word)
           \<noteq> 0xFFFFFFFF"
proof -
  let ?s = "sum_list (map (\<lambda>i. unat (songTime (itemSong i))) xs)"
  have "?s \<le> length xs * 65535" by (rule durations_bound)
  also have "\<dots> \<le> 65536 * 65535" using assms by simp
  finally have b: "?s \<le> 4294901760" by simp
  then show u: "unat (of_nat ?s :: 32 word) = ?s"
    by (simp add: unat_of_nat)
  show "(of_nat ?s :: 32 word) \<noteq> 0xFFFFFFFF"
  proof
    assume "(of_nat ?s :: 32 word) = 0xFFFFFFFF"
    then have "unat (of_nat ?s :: 32 word) = 4294967295" by simp
    with u b show False by simp
  qed
qed

text \<open>
  Claim C9. The constructor sets the time field to the sentinel \<open>0xFFFFFFFF\<close>. On a
  device that still holds the sentinel, the first call of \<open>totalTime\<close> returns the sum
  of the durations of the current children, 0 when there are none, and stores it in
  the time field, changing nothing else. Every later call returns that stored value and
  changes nothing, whatever the children have become since. The children are the tracks
  of one disc; the statement holds for up to 65536 of them, which keeps the sum of
  their 16-bit durations below the sentinel.
\<close>

theorem totalTime_lazy_cache:
  "cdTime (fst (newAudioCdDevice env base block udi cdAuto)) = 0xFFFFFFFF
   \<and> (cdTime st = 0xFFFFFFFF \<and> length (childItems st) \<le> 65536 \<longrightarrow>
        unat (fst (totalTime st))
          = sum_list (map (\<lambda>i. unat (songTime (itemSong i))) (childItems st))
        \<and> (childItems st = [] \<longrightarrow> fst (totalTime st) = 0)
        \<and> snd (totalTime st) = st\<lparr>cdTime := fst (totalTime st)\<rparr>
        \<and> fst (totalTime ((snd (totalTime st))\<lparr>childItems := cs\<rparr>)) = fst (totalTime st)
        \<and> snd (totalTime ((snd (totalTime st))\<lparr>childItems := cs\<rparr>))
            = (snd (totalTime st))\<lparr>childItems := cs\<rparr>)"
proof -
  have "unat (fst (totalTime st))
          = sum_list (map (\<lambda>i. unat (songTime (itemSong i))) (childItems st))
        \<and> (childItems st = [] \<longrightarrow> fst (totalTime st) = 0)
        \<and> snd (totalTime st) = st\<lparr>cdTime := fst (totalTime st)\<rparr>
        \<and> fst (totalTime ((snd (totalTime st))\<lparr>childItems := cs\<rparr>)) = fst (totalTime st)
        \<and> snd (totalTime ((snd (totalTime st))\<lparr>childItems := cs\<rparr>))
            = (snd (totalTime st))\<lparr>childItems := cs\<rparr>"
    if t: "cdTime st = 0xFFFFFFFF" and n: "length (childItems st) \<le> 65536"
  proof -
    let ?v = "of_nat (sum_list (map (\<lambda>i. unat (songTime (itemSong i))) (childItems st))) :: 32 word"
    have r: "totalTime st = (?v, st\<lparr>cdTime := ?v\<rparr>)"
      by (simp add: totalTime_def sentinel_def Let_def foldl_add_times t)
    note d = durations_not_sentinel [OF n]
    have c: "totalTime (st\<lparr>cdTime := ?v, childItems := cs\<rparr>)
               = (?v, st\<lparr>cdTime := ?v, childItems := cs\<rparr>)"
      using d(2) by (simp add: totalTime_def sentinel_def)
    show ?thesis using d(1) by (simp add: r c)
  qed
  with cdTime_new [of env base block udi cdAuto] show ?thesis by blast
qed

theorem totalTime_lazy_cache_witness:
  "fst (totalTime (exCd\<lparr>childItems := [exTrack1, exTrack2]\<rparr>)) = 320
   \<and> fst (totalTime ((snd (totalTime (exCd\<lparr>childItems := [exTrack1, exTrack2]\<rparr>)))
          \<lparr>childItems := [exTrack1, exTrack2, exLongItem]\<rparr>)) = 320
   \<and> fst (totalTime exCd) = 0
   \<and> fst (totalTime ((snd (totalTime exCd))\<lparr>childItems := [exTrack1, exTrack2]\<rparr>)) = 0"
proof -
  let ?st = "exCd\<lparr>childItems := [exTrack1, exTrack2]\<rparr>"
  have p: "cdTime ?st = 0xFFFFFFFF \<and> length (childItems ?st) \<le> 65536"
    by (simp add: exCd_def)
  have q: "cdTime exCd = 0xFFFFFFFF \<and> length (childItems exCd) \<le> 65536"
    by (simp add: exCd_def)
  note two = totalTime_lazy_cache [of exCdEnv exCd None "[]" False ?st
      "[exTrack1, exTrack2, exLongItem]", THEN conjunct2, THEN mp, OF p]
  note none = totalTime_lazy_cache [of exCdEnv exCd None "[]" False exCd
      "[exTrack1, exTrack2]", THEN conjunct2, THEN mp, OF q]
  from two have "unat (fst (totalTime ?st)) = 320"
    by (simp add: exTrack1_def exTrack2_def)
  then have v: "fst (totalTime ?st) = 320"
    by (simp add: word_unat_eq_iff)
  from two have w: "fst (totalTime ((snd (totalTime ?st))
             \<lparr>childItems := [exTrack1, exTrack2, exLongItem]\<rparr>)) = fst (totalTime ?st)"
    by blast
  have e: "childItems exCd = []" by (simp add: exCd_def)
  from none e have z: "fst (totalTime exCd) = 0" by blast
  from none have y: "fst (totalTime ((snd (totalTime exCd))\<lparr>childItems := [exTrack1, exTrack2]\<rparr>))
             = fst (totalTime exCd)"
    by blast
  from v w z y show ?thesis by simp
qed

subsection \<open>The device named by a URL\<close>

lemma lastIndexOf_None: "lastIndexOf m xs = None \<longleftrightarrow> \<not> sublist m xs"
  by (induction xs) (auto simp: sublist_Cons_right split: option.splits)

lemma lastIndexOf_last_occurrence:
  assumes "prefix m ys" and "\<not> sublist m (tl ys)"
  shows "lastIndexOf m (pre @ ys) = Some (length pre)"
proof (induction pre)
  case Nil
  show ?case
  proof (cases ys)
    case Nil
    with assms show ?thesis by simp
  next
    case (Cons y ys')
    with assms have "lastIndexOf m ys' = None" by (simp add: lastIndexOf_None)
    with Cons assms show ?thesis by simp
  qed
next
  case (Cons p pre)
  then show ?case by simp
qed

lemma lastIndexOf_Some:
  "lastIndexOf m xs = Some i \<Longrightarrow> i \<le> length xs \<and> prefix m (drop i xs)"
  by (induction xs arbitrary: i) (auto split: option.splits if_splits)

lemma lastIndexOf_decompose:
  assumes "lastIndexOf m xs = Some i"
  shows "xs = take i xs @ m @ drop (i + length m) xs"
proof -
  from lastIndexOf_Some [OF assms] obtain r where r: "drop i xs = m @ r"
    by (auto simp: prefix_def)
  have "drop (length m) (drop i xs) = r" by (simp add: r)
  then have "drop (i + length m) xs = r" by (simp add: add.commute)
  with r have "take i xs @ m @ drop (i + length m) xs = take i xs @ drop i xs" by simp
  then show ?thesis by simp
qed

text \<open>
  Claim C8. For a URL with scheme \<open>cdda\<close>, \<open>getDevice\<close> returns the value of the
  query item \<open>dev\<close> when there is one and \<open>-\<close> otherwise. For a URL with another scheme
  whose path starts with \<open>/run/user/\<close> and contains the marker
  \<open>/gvfs/cdda:host=\<close>, it returns \<open>/dev/\<close> followed by the name after the marker:
  after the last marker, should the marker occur more than once.
\<close>

theorem getDevice_resolves:
  "(urlScheme url = ''cdda'' \<longrightarrow>
      getDevice url = (case map_of (urlQuery url) ''dev'' of Some v \<Rightarrow> v | None \<Rightarrow> ''-''))
   \<and> (urlScheme url \<noteq> ''cdda'' \<and> prefix ''/run/user/'' (urlPath url)
        \<and> urlPath url = pre @ ''/gvfs/cdda:host='' @ nm
        \<and> \<not> sublist ''/gvfs/cdda:host='' (tl (''/gvfs/cdda:host='' @ nm))
      \<longrightarrow> getDevice url = ''/dev/'' @ nm)
   \<and> (urlScheme url \<noteq> ''cdda'' \<and> prefix ''/run/user/'' (urlPath url)
        \<and> sublist ''/gvfs/cdda:host='' (urlPath url)
      \<longrightarrow> (\<exists>before host. urlPath url = before @ ''/gvfs/cdda:host='' @ host
              \<and> getDevice url = ''/dev/'' @ host))"
proof -
  have a: "getDevice url = (case map_of (urlQuery url) ''dev'' of Some v \<Rightarrow> v | None \<Rightarrow> ''-'')"
    if "urlScheme url = ''cdda''"
    using that
    by (simp add: getDevice_def hasQueryItem_def queryItemValue_def constAnyDev_def
          split: option.splits)
  have found: "getDevice url = ''/dev/'' @ drop (i + length marker) (urlPath url)"
    if "urlScheme url \<noteq> ''cdda''" and "prefix ''/run/user/'' (urlPath url)"
      and "lastIndexOf marker (urlPath url) = Some i" for i
    using that by (simp add: getDevice_def Let_def del: lastIndexOf.simps)
  have b: "getDevice url = ''/dev/'' @ nm"
    if s: "urlScheme url \<noteq> ''cdda''" and r: "prefix ''/run/user/'' (urlPath url)"
      and p: "urlPath url = pre @ ''/gvfs/cdda:host='' @ nm"
      and l: "\<not> sublist ''/gvfs/cdda:host='' (tl (''/gvfs/cdda:host='' @ nm))"
  proof -
    have "lastIndexOf marker (pre @ (marker @ nm)) = Some (length pre)"
      using l by (intro lastIndexOf_last_occurrence) (simp_all add: marker_def)
    then have i: "lastIndexOf marker (urlPath url) = Some (length pre)"
      by (simp add: p marker_def)
    have "drop (length pre + length marker) (urlPath url) = nm"
      by (simp add: p marker_def)
    with found [OF s r i] show ?thesis by simp
  qed
  have c: "\<exists>before host. urlPath url = before @ ''/gvfs/cdda:host='' @ host
              \<and> getDevice url = ''/dev/'' @ host"
    if s: "urlScheme url \<noteq> ''cdda''" and r: "prefix ''/run/user/'' (urlPath url)"
      and m: "sublist ''/gvfs/cdda:host='' (urlPath url)"
  proof -
    from m have "lastIndexOf marker (urlPath url) \<noteq> None"
      by (simp add: lastIndexOf_None marker_def)
    then obtain i where i: "lastIndexOf marker (urlPath url) = Some i" by blast
    from lastIndexOf_decompose [OF i]
    have "urlPath url = take i (urlPath url) @ ''/gvfs/cdda:host=''
            @ drop (i + length marker) (urlPath url)"
      by (simp add: marker_def)
    with found [OF s r i] show ?thesis by blast
  qed
  from a b c show ?thesis by blast
qed

theorem getDevice_resolves_witness:
  "getDevice exUrlDev = ''/dev/sr1'' \<and> getDevice exUrlBare = ''-''
   \<and> getDevice exUrlGvfs = ''/dev/sr0''"
proof -
  have 1: "getDevice exUrlDev = ''/dev/sr1''"
    using getDevice_resolves [of exUrlDev "[]" "[]"] by (simp add: exUrlDev_def)
  have 2: "getDevice exUrlBare = ''-''"
    using getDevice_resolves [of exUrlBare "[]" "[]"] by (simp add: exUrlBare_def)
  have n: "\<not> sublist ''/gvfs/cdda:host='' (tl (''/gvfs/cdda:host='' @ ''sr0''))"
    by (simp add: sublist_code)
  have 3: "getDevice exUrlGvfs = ''/dev/sr0''"
    using getDevice_resolves [of exUrlGvfs "''/run/user/1000''" "''sr0''",
        THEN conjunct2, THEN conjunct1] n
    by (simp add: exUrlGvfs_def)
  from 1 2 3 show ?thesis by simp
qed

subsection \<open>Candidates from the lookup\<close>

text \<open>
  Claim C6, as the code has it. \<open>cdMatches\<close> with one candidate does what \<open>setDetails\<close>
  does with it. With more than one candidate it emits \<open>matches\<close> with the device's id
  and the list, with none it emits nothing; in both cases it clears \<open>lookupInProcess\<close>
  and changes no other field of the device.
\<close>

theorem cdMatches_cases:
  "cdMatches env [a] st = setDetails env a st
   \<and> (length albums > 1 \<longrightarrow>
        cdMatches env albums st = (st\<lparr>lookupInProcess := False\<rparr>, [Matches (devId env) albums]))
   \<and> cdMatches env [] st = (st\<lparr>lookupInProcess := False\<rparr>, [])"
  by (simp add: cdMatches_def setDetails_def Let_def)

theorem cdMatches_cases_witness:
  "cdMatches exCdEnv [exAlbum, exAlbum] exCd
     = (exCd\<lparr>lookupInProcess := False\<rparr>, [Matches ''sr0'' [exAlbum, exAlbum]])"
  using cdMatches_cases [of exCdEnv exAlbum exCd "[exAlbum, exAlbum]"]
  by (simp add: exCdEnv_def)

text \<open>
  The claim as written fails on a device whose lookup is still running, which is how
  the constructor leaves a device with a known path: a list of two candidates, and the
  empty list, both change the device.
\<close>

theorem cdMatches_state_counterexample:
  "lookupInProcess exCd
   \<and> fst (cdMatches exCdEnv [exAlbum, exAlbum] exCd) \<noteq> exCd
   \<and> fst (cdMatches exCdEnv [] exCd) \<noteq> exCd"
proof -
  have l: "lookupInProcess exCd" by (simp add: exCd_def)
  have a: "\<not> lookupInProcess (fst (cdMatches exCdEnv [exAlbum, exAlbum] exCd))"
    by (simp add: cdMatches_def Let_def)
  have b: "\<not> lookupInProcess (fst (cdMatches exCdEnv [] exCd))"
    by (simp add: cdMatches_def Let_def)
  from l a b show ?thesis by auto
qed

section \<open>Properties of UmsDevice\<close>

subsection \<open>Capacity figures\<close>

text \<open>
  Claim C2, as the code has it. \<open>freeSpace\<close> is 0 on a disconnected device and size
  minus used on a connected one. While no cache progress is recorded
  (\<open>cacheProgress\<close> at most \<open>-1\<close>), \<open>usedCapacity\<close> is \<open>-1\<close> and \<open>capacityString\<close> is the
  translation of "Not Connected" on a disconnected device, and on a connected one they
  come from the size and used totals (\<open>-1\<close> when the size is not positive). While a
  cache progress is recorded, connected or not, \<open>usedCapacity\<close> is that percentage
  over 100 and \<open>capacityString\<close> is the current status message.
\<close>

theorem capacity_report:
  "(\<not> isConnected env \<longrightarrow> freeSpace env st = 0)
   \<and> (\<not> isConnected env \<and> cacheProgress st \<le> -1 \<longrightarrow>
        usedCapacity env st = -1 \<and> capacityString env st = tr env ''Not Connected'')
   \<and> (isConnected env \<longrightarrow> freeSpace env st = spaceSize st - spaceUsed st)
   \<and> (isConnected env \<and> cacheProgress st \<le> -1 \<longrightarrow>
        usedCapacity env st =
          (if spaceSize st > 0 then real_of_int (spaceUsed st) / real_of_int (spaceSize st)
           else -1)
        \<and> capacityString env st =
            arg env (tr env ''%1 free'') (formatByteSize env (spaceSize st - spaceUsed st)))
   \<and> (cacheProgress st > -1 \<longrightarrow>
        usedCapacity env st = real_of_int (cacheProgress st) / 100
        \<and> capacityString env st = statusMsg st)"
  by (simp add: freeSpace_def usedCapacity_def capacityString_def)

theorem capacity_report_witness:
  "\<not> isConnected (exUmsEnv\<lparr>accessAccessible := False\<rparr>)
   \<and> freeSpace (exUmsEnv\<lparr>accessAccessible := False\<rparr>) exUms = 0
   \<and> usedCapacity (exUmsEnv\<lparr>accessAccessible := False\<rparr>) exUms = -1
   \<and> capacityString (exUmsEnv\<lparr>accessAccessible := False\<rparr>) exUms = ''Not Connected''
   \<and> isConnected exUmsEnv
   \<and> freeSpace exUmsEnv exUms = 750
   \<and> usedCapacity exUmsEnv exUms = 1 / 4
   \<and> usedCapacity exUmsEnv (exUms\<lparr>cacheProgress := 50\<rparr>) = 1 / 2
   \<and> capacityString exUmsEnv (exUms\<lparr>cacheProgress := 50\<rparr>) = ''Saving cache''"
proof -
  let ?off = "exUmsEnv\<lparr>accessAccessible := False\<rparr>"
  have d: "\<not> isConnected ?off" by (simp add: isConnected_def)
  have c: "isConnected exUmsEnv" by (simp add: isConnected_def exUmsEnv_def)
  have p: "cacheProgress exUms = -1" "spaceSize exUms = 1000" "spaceUsed exUms = 250"
    "statusMsg exUms = ''Saving cache''"
    by (simp_all add: exUms_def)
  have t: "tr ?off ''Not Connected'' = ''Not Connected''" by (simp add: exUmsEnv_def)
  from capacity_report [of ?off exUms] d p t
  have 1: "freeSpace ?off exUms = 0 \<and> usedCapacity ?off exUms = -1
     \<and> capacityString ?off exUms = ''Not Connected''"
    by simp
  from capacity_report [of exUmsEnv exUms] c p
  have 2: "freeSpace exUmsEnv exUms = 750 \<and> usedCapacity exUmsEnv exUms = 1 / 4"
    by simp
  from capacity_report [of exUmsEnv "exUms\<lparr>cacheProgress := 50\<rparr>"] p
  have 3: "usedCapacity exUmsEnv (exUms\<lparr>cacheProgress := 50\<rparr>) = 1 / 2
    \<and> capacityString exUmsEnv (exUms\<lparr>cacheProgress := 50\<rparr>) = ''Saving cache''"
    by simp
  from d c 1 2 3 show ?thesis by simp
qed

text \<open>
  The claim as written fails on a disconnected device that records a cache progress of
  50: \<open>usedCapacity\<close> is one half, not \<open>-1\<close>, and \<open>capacityString\<close> is the status
  message, not "Not Connected".
\<close>

theorem capacity_disconnected_counterexample:
  "\<not> isConnected (exUmsEnv\<lparr>accessAccessible := False\<rparr>)
   \<and> usedCapacity (exUmsEnv\<lparr>accessAccessible := False\<rparr>) (exUms\<lparr>cacheProgress := 50\<rparr>) = 1 / 2
   \<and> usedCapacity (exUmsEnv\<lparr>accessAccessible := False\<rparr>) (exUms\<lparr>cacheProgress := 50\<rparr>) \<noteq> -1
   \<and> capacityString (exUmsEnv\<lparr>accessAccessible := False\<rparr>) (exUms\<lparr>cacheProgress := 50\<rparr>)
       = ''Saving cache''
   \<and> capacityString (exUmsEnv\<lparr>accessAccessible := False\<rparr>) (exUms\<lparr>cacheProgress := 50\<rparr>)
       \<noteq> tr (exUmsEnv\<lparr>accessAccessible := False\<rparr>) ''Not Connected''"
  by (simp add: isConnected_def usedCapacity_def capacityString_def exUms_def exUmsEnv_def)

subsection \<open>Unrecognised lines of the settings file\<close>

lemma setupLine_unused:
  "unusedParams (snd (setupLine env path (a, st) l))
     = unusedParams st @ (if recognised env l then [] else [l])"
  by (simp add: setupLine_def recognised_def Let_def)

lemma loop_unused:
  "unusedParams (snd (foldl (setupLine env path) acc ls))
     = unusedParams (snd acc) @ filter (\<lambda>l. \<not> recognised env l) ls"
proof (induction ls arbitrary: acc)
  case Nil
  show ?case by simp
next
  case (Cons l ls)
  obtain a st where acc: "acc = (a, st)" by (cases acc)
  show ?case
    using Cons.IH [of "setupLine env path acc l"] setupLine_unused [of env path a st l]
    by (simp add: acc)
qed

lemma settingsDefaults_keeps:
  "unusedParams (settingsDefaults env h st) = unusedParams st"
  "spacePath (settingsDefaults env h st) = spacePath st"
  "vfatSafe (opts (settingsDefaults env h st)) = vfatSafe (opts st)"
  by (simp_all add: settingsDefaults_def Let_def)

lemma resolveAudioFolder_keeps:
  "unusedParams (resolveAudioFolder env p a st) = unusedParams st"
  "spacePath (resolveAudioFolder env p a st) = spacePath st"
  "opts (resolveAudioFolder env p a st) = opts st"
  by (simp_all add: resolveAudioFolder_def Let_def split: option.splits)

lemma scanAndRename_keeps:
  "unusedParams (fst (scanAndRename env n st)) = unusedParams st"
  "spacePath (fst (scanAndRename env n st)) = spacePath st"
  "opts (fst (scanAndRename env n st)) = opts st"
  by (simp_all add: scanAndRename_def Let_def)

lemma setup_connected:
  "isConnected env \<Longrightarrow>
     fst (setup_ums env st) =
       fst (scanAndRename env (itemData st)
         (resolveAudioFolder env (spacePath st)
           (fst (readSettings env (spacePath st)
              (st\<lparr>audioFolder := spacePath st,
                   opts := snd (readOpts env (spacePath st @ constCantataSettingsFile env)
                                  (opts st))\<rparr>)))
           (settingsDefaults env
             (fst (readOpts env (spacePath st @ constCantataSettingsFile env) (opts st)))
             (snd (readSettings env (spacePath st)
                (st\<lparr>audioFolder := spacePath st,
                     opts := snd (readOpts env (spacePath st @ constCantataSettingsFile env)
                                    (opts st))\<rparr>))))))"
  by (simp add: setup_ums_def Let_def split_beta)

lemma setup_unused:
  assumes "isConnected env" and "readLines env (spacePath st @ constSettingsFile) = Some ls"
  shows "unusedParams (fst (setup_ums env st))
           = unusedParams st @ filter (\<lambda>l. \<not> recognised env l) ls"
  by (simp add: setup_connected [OF assms(1)] scanAndRename_keeps resolveAudioFolder_keeps
        settingsDefaults_keeps readSettings_def assms(2) loop_unused)

lemma setupLine_spacePath:
  "spacePath (snd (setupLine env path (a, st) l)) = spacePath st"
  by (simp add: setupLine_def Let_def)

lemma loop_spacePath:
  "spacePath (snd (foldl (setupLine env path) acc ls)) = spacePath (snd acc)"
proof (induction ls arbitrary: acc)
  case Nil
  show ?case by simp
next
  case (Cons l ls)
  obtain a st where acc: "acc = (a, st)" by (cases acc)
  show ?case
    using Cons.IH [of "setupLine env path acc l"] setupLine_spacePath [of env path a st l]
    by (simp add: acc)
qed

lemma setup_spacePath: "spacePath (fst (setup_ums env st)) = spacePath st"
proof (cases "isConnected env")
  case True
  show ?thesis
    by (simp add: setup_connected [OF True] scanAndRename_keeps resolveAudioFolder_keeps
          settingsDefaults_keeps readSettings_def loop_spacePath split: option.splits)
next
  case False
  then show ?thesis by (simp add: setup_ums_def)
qed

lemma optionLines_recognised: "l \<in> set (optionLines env def st) \<Longrightarrow> recognised env l"
  by (auto simp: optionLines_def recognised_def Let_def split: if_splits)

lemma section1_true: "section1 ''vfat_safe=true'' = ''true''"
  by (simp add: section1_def)

lemma setupLine_vfat:
  assumes "constVfatSafeKey env = ''vfat_safe''"
    and "\<not> prefix (constMusicFilenameSchemeKey env @ ''='') ''vfat_safe=true''"
  shows "vfatSafe (opts (snd (setupLine env p (a, st) ''vfat_safe=true'')))"
  using assms by (simp add: setupLine_def constMusicFolderKey_def section1_true)

lemma setupLine_other:
  "\<not> recognised env u \<Longrightarrow>
     opts (snd (setupLine env p (a, st) u)) = opts st"
  by (simp add: setupLine_def recognised_def)

lemma setup_vfat_example:
  assumes "isConnected env"
    and "readLines env (spacePath st @ constSettingsFile)
           = Some [''audio_folder=Music'', ''vfat_safe=true'', u]"
    and "constVfatSafeKey env = ''vfat_safe''"
    and "\<not> prefix (constMusicFilenameSchemeKey env @ ''='') ''vfat_safe=true''"
    and "\<not> recognised env u"
  shows "vfatSafe (opts (fst (setup_ums env st)))"
proof -
  have "vfatSafe (opts (snd (setupLine env p (setupLine env p acc ''vfat_safe=true'') u)))"
    for p acc
    using setupLine_vfat [OF assms(3,4), of p "fst acc" "snd acc"]
      setupLine_other [OF assms(5), of p "fst (setupLine env p acc ''vfat_safe=true'')"
        "snd (setupLine env p acc ''vfat_safe=true'')"]
    by simp
  then show ?thesis
    by (simp add: setup_connected [OF assms(1)] scanAndRename_keeps resolveAudioFolder_keeps
          settingsDefaults_keeps readSettings_def assms(2))
qed

lemma splitOn_key:
  "c \<notin> set k \<Longrightarrow> splitOn c (k @ c # v) = k # splitOn c v"
  by (induction k) auto

lemma splitOn_first:
  "\<exists>r. splitOn c v = takeWhile (\<lambda>x. x \<noteq> c) v # r"
  by (induction v) (auto split: list.splits)

lemma section1_value:
  assumes "CHR ''='' \<notin> set k"
  shows "section1 (k @ CHR ''='' # v) = takeWhile (\<lambda>c. c \<noteq> CHR ''='') v"
proof -
  obtain r where "splitOn (CHR ''='') v = takeWhile (\<lambda>x. x \<noteq> CHR ''='') v # r"
    using splitOn_first by blast
  with splitOn_key [OF assms, of v] show ?thesis
    by (simp add: section1_def)
qed

lemma loop_keeps:
  assumes "\<And>a s m. m \<in> set ms \<Longrightarrow> f (snd (setupLine env p (a, s) m)) = f s"
  shows "f (snd (foldl (setupLine env p) acc ms)) = f (snd acc)"
  using assms
proof (induction ms arbitrary: acc)
  case Nil
  show ?case by simp
next
  case (Cons m ms)
  obtain a s where acc: "acc = (a, s)" by (cases acc)
  have "f (snd (foldl (setupLine env p) (setupLine env p acc m) ms))
          = f (snd (setupLine env p acc m))"
    by (rule Cons.IH) (simp add: Cons.prems)
  also have "\<dots> = f (snd acc)"
    using Cons.prems [of m a s] by (simp add: acc)
  finally show ?case by simp
qed

lemma setupLine_keeps_bool:
  "\<not> prefix (constVfatSafeKey env @ ''='') m \<Longrightarrow>
     vfatSafe (opts (snd (setupLine env p (a, s) m))) = vfatSafe (opts s)"
  "\<not> prefix (constAsciiOnlyKey env @ ''='') m \<Longrightarrow>
     asciiOnly (opts (snd (setupLine env p (a, s) m))) = asciiOnly (opts s)"
  "\<not> prefix (constIgnoreTheKey env @ ''='') m \<Longrightarrow>
     ignoreThe (opts (snd (setupLine env p (a, s) m))) = ignoreThe (opts s)"
  "\<not> prefix (constReplaceSpacesKey env @ ''='') m \<Longrightarrow>
     replaceSpaces (opts (snd (setupLine env p (a, s) m))) = replaceSpaces (opts s)"
  by (simp_all add: setupLine_def Let_def)

lemma setupLine_sets_bool:
  "\<not> prefix (constMusicFolderKey @ ''='') l \<Longrightarrow>
   \<not> prefix (constMusicFilenameSchemeKey env @ ''='') l \<Longrightarrow>
   prefix (constVfatSafeKey env @ ''='') l \<Longrightarrow>
     vfatSafe (opts (snd (setupLine env p (a, s) l))) = (''true'' = section1 l)"
  "\<not> prefix (constMusicFolderKey @ ''='') l \<Longrightarrow>
   \<not> prefix (constMusicFilenameSchemeKey env @ ''='') l \<Longrightarrow>
   \<not> prefix (constVfatSafeKey env @ ''='') l \<Longrightarrow>
   prefix (constAsciiOnlyKey env @ ''='') l \<Longrightarrow>
     asciiOnly (opts (snd (setupLine env p (a, s) l))) = (''true'' = section1 l)"
  "\<not> prefix (constMusicFolderKey @ ''='') l \<Longrightarrow>
   \<not> prefix (constMusicFilenameSchemeKey env @ ''='') l \<Longrightarrow>
   \<not> prefix (constVfatSafeKey env @ ''='') l \<Longrightarrow>
   \<not> prefix (constAsciiOnlyKey env @ ''='') l \<Longrightarrow>
   prefix (constIgnoreTheKey env @ ''='') l \<Longrightarrow>
     ignoreThe (opts (snd (setupLine env p (a, s) l))) = (''true'' = section1 l)"
  "\<not> prefix (constMusicFolderKey @ ''='') l \<Longrightarrow>
   \<not> prefix (constMusicFilenameSchemeKey env @ ''='') l \<Longrightarrow>
   \<not> prefix (constVfatSafeKey env @ ''='') l \<Longrightarrow>
   \<not> prefix (constAsciiOnlyKey env @ ''='') l \<Longrightarrow>
   \<not> prefix (constIgnoreTheKey env @ ''='') l \<Longrightarrow>
   prefix (constReplaceSpacesKey env @ ''='') l \<Longrightarrow>
     replaceSpaces (opts (snd (setupLine env p (a, s) l))) = (''true'' = section1 l)"
  by (simp_all add: setupLine_def Let_def)

lemma settingsDefaults_bools:
  "asciiOnly (opts (settingsDefaults env h st)) = asciiOnly (opts st)"
  "ignoreThe (opts (settingsDefaults env h st)) = ignoreThe (opts st)"
  "replaceSpaces (opts (settingsDefaults env h st)) = replaceSpaces (opts st)"
  by (simp_all add: settingsDefaults_def Let_def)

text \<open>The options after \<open>UmsDevice::setup\<close> are, but for the cover name, those after the loop.\<close>

lemma setup_bool_after_loop:
  assumes "isConnected env" and "readLines env (spacePath st @ constSettingsFile) = Some ls"
  shows "\<exists>acc.
     vfatSafe (opts (fst (setup_ums env st)))
       = vfatSafe (opts (snd (foldl (setupLine env (spacePath st)) acc ls)))
     \<and> asciiOnly (opts (fst (setup_ums env st)))
       = asciiOnly (opts (snd (foldl (setupLine env (spacePath st)) acc ls)))
     \<and> ignoreThe (opts (fst (setup_ums env st)))
       = ignoreThe (opts (snd (foldl (setupLine env (spacePath st)) acc ls)))
     \<and> replaceSpaces (opts (fst (setup_ums env st)))
       = replaceSpaces (opts (snd (foldl (setupLine env (spacePath st)) acc ls)))"
  by (rule exI [of _ "([], st\<lparr>audioFolder := spacePath st,
          opts := snd (readOpts env (spacePath st @ constCantataSettingsFile env) (opts st)),
          configured := True\<rparr>)"])
     (simp add: setup_connected [OF assms(1)] scanAndRename_keeps resolveAudioFolder_keeps
        settingsDefaults_keeps settingsDefaults_bools readSettings_def assms(2))

lemma loop_bool_line:
  fixes f :: "umsdevice \<Rightarrow> bool"
  assumes "\<And>a s. f (snd (setupLine env p (a, s) l)) = b"
    and "\<And>a s m. m \<in> set post \<Longrightarrow> f (snd (setupLine env p (a, s) m)) = f s"
  shows "f (snd (foldl (setupLine env p) acc (pre @ [l] @ post))) = b"
proof -
  obtain a s where "foldl (setupLine env p) acc pre = (a, s)"
    by (cases "foldl (setupLine env p) acc pre")
  then show ?thesis
    using loop_keeps [of post f env p "setupLine env p (a, s) l"] assms by simp
qed


text \<open>
  Claim C7. On a connected device whose settings file can be read and written,
  \<open>UmsDevice::setup\<close> appends to the unused lines, in order and unchanged, every line of
  the file that does not start with one of the seven keys followed by \<open>=\<close>, and the
  next \<open>saveOptions\<close> writes the lines of the recognised keys first and then every
  unused line, each followed by a line feed. For the file \<open>audio_folder=Music\<close>,
  \<open>vfat_safe=true\<close> and one unrecognised line \<open>u\<close> (with \<open>vfat_safe\<close> the VFAT key),
  \<open>vfatSafe\<close> is true after reading, \<open>u\<close> is kept, and the rewritten file ends with
  \<open>u\<close> and a line feed.

  Each of the four boolean keys is read by comparing the value text with \<open>true\<close>:
  when the last line of the key in the file is \<open>key=v\<close>, and no key tested before it
  claims that line, the option is true after reading exactly when the part of \<open>v\<close>
  before any further \<open>=\<close> is the text \<open>true\<close>, and false for every other text.
\<close>

theorem settings_round_trip:
  assumes "isConnected env"
    and "readLines env (spacePath st @ constSettingsFile) = Some ls"
    and "canWrite env (spacePath st @ constSettingsFile)"
  shows "unusedParams (fst (setup_ums env st))
           = unusedParams st @ filter (\<lambda>l. \<not> recognised env l) ls
    \<and> saveOptions env def (fst (setup_ums env st))
        = Some (concat (map (\<lambda>l. l @ nl) (optionLines env def (fst (setup_ums env st))))
                @ concat (map (\<lambda>u. u @ nl)
                    (unusedParams st @ filter (\<lambda>l. \<not> recognised env l) ls)))
    \<and> (\<forall>l \<in> set (optionLines env def (fst (setup_ums env st))). recognised env l)
    \<and> (ls = [''audio_folder=Music'', ''vfat_safe=true'', u]
         \<and> constVfatSafeKey env = ''vfat_safe''
         \<and> \<not> prefix (constMusicFilenameSchemeKey env @ ''='') ''vfat_safe=true''
         \<and> \<not> recognised env u
       \<longrightarrow> vfatSafe (opts (fst (setup_ums env st)))
           \<and> unusedParams (fst (setup_ums env st)) = unusedParams st @ [u]
           \<and> suffix (u @ nl) (the (saveOptions env def (fst (setup_ums env st)))))
    \<and> (ls = before @ [l] @ after \<and> l = constVfatSafeKey env @ ''='' @ v
        \<and> CHR ''='' \<notin> set (constVfatSafeKey env)
        \<and> \<not> prefix (constMusicFolderKey @ ''='') l
        \<and> \<not> prefix (constMusicFilenameSchemeKey env @ ''='') l
        \<and> (\<forall>m \<in> set after. \<not> prefix (constVfatSafeKey env @ ''='') m)
      \<longrightarrow> vfatSafe (opts (fst (setup_ums env st)))
            = (takeWhile (\<lambda>c. c \<noteq> CHR ''='') v = ''true''))
    \<and> (ls = before @ [l] @ after \<and> l = constAsciiOnlyKey env @ ''='' @ v
        \<and> CHR ''='' \<notin> set (constAsciiOnlyKey env)
        \<and> \<not> prefix (constMusicFolderKey @ ''='') l
        \<and> \<not> prefix (constMusicFilenameSchemeKey env @ ''='') l
        \<and> \<not> prefix (constVfatSafeKey env @ ''='') l
        \<and> (\<forall>m \<in> set after. \<not> prefix (constAsciiOnlyKey env @ ''='') m)
      \<longrightarrow> asciiOnly (opts (fst (setup_ums env st)))
            = (takeWhile (\<lambda>c. c \<noteq> CHR ''='') v = ''true''))
    \<and> (ls = before @ [l] @ after \<and> l = constIgnoreTheKey env @ ''='' @ v
        \<and> CHR ''='' \<notin> set (constIgnoreTheKey env)
        \<and> \<not> prefix (constMusicFolderKey @ ''='') l
        \<and> \<not> prefix (constMusicFilenameSchemeKey env @ ''='') l
        \<and> \<not> prefix (constVfatSafeKey env @ ''='') l
        \<and> \<not> prefix (constAsciiOnlyKey env @ ''='') l
        \<and> (\<forall>m \<in> set after. \<not> prefix (constIgnoreTheKey env @ ''='') m)
      \<longrightarrow> ignoreThe (opts (fst (setup_ums env st)))
            = (takeWhile (\<lambda>c. c \<noteq> CHR ''='') v = ''true''))
    \<and> (ls = before @ [l] @ after \<and> l = constReplaceSpacesKey env @ ''='' @ v
        \<and> CHR ''='' \<notin> set (constReplaceSpacesKey env)
        \<and> \<not> prefix (constMusicFolderKey @ ''='') l
        \<and> \<not> prefix (constMusicFilenameSchemeKey env @ ''='') l
        \<and> \<not> prefix (constVfatSafeKey env @ ''='') l
        \<and> \<not> prefix (constAsciiOnlyKey env @ ''='') l
        \<and> \<not> prefix (constIgnoreTheKey env @ ''='') l
        \<and> (\<forall>m \<in> set after. \<not> prefix (constReplaceSpacesKey env @ ''='') m)
      \<longrightarrow> replaceSpaces (opts (fst (setup_ums env st)))
            = (takeWhile (\<lambda>c. c \<noteq> CHR ''='') v = ''true''))"
proof -
  let ?st = "fst (setup_ums env st)"
  have 1: "unusedParams ?st = unusedParams st @ filter (\<lambda>l. \<not> recognised env l) ls"
    by (rule setup_unused [OF assms(1,2)])
  have 2: "saveOptions env def ?st
        = Some (concat (map (\<lambda>l. l @ nl) (optionLines env def ?st))
                @ concat (map (\<lambda>u. u @ nl)
                    (unusedParams st @ filter (\<lambda>l. \<not> recognised env l) ls)))"
    using assms(1,3) by (simp add: saveOptions_def setup_spacePath 1)
  have 3: "\<forall>l \<in> set (optionLines env def ?st). recognised env l"
    by (simp add: optionLines_recognised)
  have 4: "vfatSafe (opts ?st) \<and> unusedParams ?st = unusedParams st @ [u]
           \<and> suffix (u @ nl) (the (saveOptions env def ?st))"
    if e: "ls = [''audio_folder=Music'', ''vfat_safe=true'', u]"
      and k: "constVfatSafeKey env = ''vfat_safe''"
      and n: "\<not> prefix (constMusicFilenameSchemeKey env @ ''='') ''vfat_safe=true''"
      and r: "\<not> recognised env u"
  proof -
    have a: "recognised env ''audio_folder=Music''"
      by (simp add: recognised_def constMusicFolderKey_def)
    have b: "recognised env ''vfat_safe=true''"
      by (simp add: recognised_def k)
    have f: "filter (\<lambda>l. \<not> recognised env l) ls = [u]"
      by (simp add: e a b r)
    have v: "vfatSafe (opts ?st)"
      using assms(2) by (intro setup_vfat_example [OF assms(1) _ k n r]) (simp add: e)
    have s: "suffix (u @ nl) (the (saveOptions env def ?st))"
      by (simp add: 2 f suffix_def)
    from v 1 f s show ?thesis by simp
  qed
  from setup_bool_after_loop [OF assms(1,2)] obtain acc where
    acc: "vfatSafe (opts ?st)
            = vfatSafe (opts (snd (foldl (setupLine env (spacePath st)) acc ls)))"
      "asciiOnly (opts ?st)
            = asciiOnly (opts (snd (foldl (setupLine env (spacePath st)) acc ls)))"
      "ignoreThe (opts ?st)
            = ignoreThe (opts (snd (foldl (setupLine env (spacePath st)) acc ls)))"
      "replaceSpaces (opts ?st)
            = replaceSpaces (opts (snd (foldl (setupLine env (spacePath st)) acc ls)))"
    by blast
  have b1: "vfatSafe (opts ?st) = (takeWhile (\<lambda>c. c \<noteq> CHR ''='') v = ''true'')"
    if "ls = before @ [l] @ after" and "l = constVfatSafeKey env @ ''='' @ v"
      and "CHR ''='' \<notin> set (constVfatSafeKey env)"
      and "\<not> prefix (constMusicFolderKey @ ''='') l"
      and "\<not> prefix (constMusicFilenameSchemeKey env @ ''='') l"
      and "\<forall>m \<in> set after. \<not> prefix (constVfatSafeKey env @ ''='') m"
  proof -
    have "vfatSafe (opts (snd (foldl (setupLine env (spacePath st)) acc (before @ [l] @ after))))
            = (''true'' = section1 l)"
      by (rule loop_bool_line [where f = "\<lambda>s. vfatSafe (opts s)"])
         (use that in \<open>simp_all add: setupLine_sets_bool setupLine_keeps_bool\<close>)
    with acc(1) that(1) have "vfatSafe (opts ?st) = (''true'' = section1 l)" by simp
    moreover have "section1 l = takeWhile (\<lambda>c. c \<noteq> CHR ''='') v"
      using that(2,3) by (simp add: section1_value)
    ultimately show ?thesis by metis
  qed
  have b2: "asciiOnly (opts ?st) = (takeWhile (\<lambda>c. c \<noteq> CHR ''='') v = ''true'')"
    if "ls = before @ [l] @ after" and "l = constAsciiOnlyKey env @ ''='' @ v"
      and "CHR ''='' \<notin> set (constAsciiOnlyKey env)"
      and "\<not> prefix (constMusicFolderKey @ ''='') l"
      and "\<not> prefix (constMusicFilenameSchemeKey env @ ''='') l"
      and "\<not> prefix (constVfatSafeKey env @ ''='') l"
      and "\<forall>m \<in> set after. \<not> prefix (constAsciiOnlyKey env @ ''='') m"
  proof -
    have "asciiOnly (opts (snd (foldl (setupLine env (spacePath st)) acc (before @ [l] @ after))))
            = (''true'' = section1 l)"
      by (rule loop_bool_line [where f = "\<lambda>s. asciiOnly (opts s)"])
         (use that in \<open>simp_all add: setupLine_sets_bool setupLine_keeps_bool\<close>)
    with acc(2) that(1) have "asciiOnly (opts ?st) = (''true'' = section1 l)" by simp
    moreover have "section1 l = takeWhile (\<lambda>c. c \<noteq> CHR ''='') v"
      using that(2,3) by (simp add: section1_value)
    ultimately show ?thesis by metis
  qed
  have b3: "ignoreThe (opts ?st) = (takeWhile (\<lambda>c. c \<noteq> CHR ''='') v = ''true'')"
    if "ls = before @ [l] @ after" and "l = constIgnoreTheKey env @ ''='' @ v"
      and "CHR ''='' \<notin> set (constIgnoreTheKey env)"
      and "\<not> prefix (constMusicFolderKey @ ''='') l"
      and "\<not> prefix (constMusicFilenameSchemeKey env @ ''='') l"
      and "\<not> prefix (constVfatSafeKey env @ ''='') l"
      and "\<not> prefix (constAsciiOnlyKey env @ ''='') l"
      and "\<forall>m \<in> set after. \<not> prefix (constIgnoreTheKey env @ ''='') m"
  proof -
    have "ignoreThe (opts (snd (foldl (setupLine env (spacePath st)) acc (before @ [l] @ after))))
            = (''true'' = section1 l)"
      by (rule loop_bool_line [where f = "\<lambda>s. ignoreThe (opts s)"])
         (use that in \<open>simp_all add: setupLine_sets_bool setupLine_keeps_bool\<close>)
    with acc(3) that(1) have "ignoreThe (opts ?st) = (''true'' = section1 l)" by simp
    moreover have "section1 l = takeWhile (\<lambda>c. c \<noteq> CHR ''='') v"
      using that(2,3) by (simp add: section1_value)
    ultimately show ?thesis by metis
  qed
  have b4: "replaceSpaces (opts ?st) = (takeWhile (\<lambda>c. c \<noteq> CHR ''='') v = ''true'')"
    if "ls = before @ [l] @ after" and "l = constReplaceSpacesKey env @ ''='' @ v"
      and "CHR ''='' \<notin> set (constReplaceSpacesKey env)"
      and "\<not> prefix (constMusicFolderKey @ ''='') l"
      and "\<not> prefix (constMusicFilenameSchemeKey env @ ''='') l"
      and "\<not> prefix (constVfatSafeKey env @ ''='') l"
      and "\<not> prefix (constAsciiOnlyKey env @ ''='') l"
      and "\<not> prefix (constIgnoreTheKey env @ ''='') l"
      and "\<forall>m \<in> set after. \<not> prefix (constReplaceSpacesKey env @ ''='') m"
  proof -
    have "replaceSpaces (opts (snd (foldl (setupLine env (spacePath st)) acc (before @ [l] @ after))))
            = (''true'' = section1 l)"
      by (rule loop_bool_line [where f = "\<lambda>s. replaceSpaces (opts s)"])
         (use that in \<open>simp_all add: setupLine_sets_bool setupLine_keeps_bool\<close>)
    with acc(4) that(1) have "replaceSpaces (opts ?st) = (''true'' = section1 l)" by simp
    moreover have "section1 l = takeWhile (\<lambda>c. c \<noteq> CHR ''='') v"
      using that(2,3) by (simp add: section1_value)
    ultimately show ?thesis by metis
  qed
  have c4: "(ls = [''audio_folder=Music'', ''vfat_safe=true'', u]
         \<and> constVfatSafeKey env = ''vfat_safe''
         \<and> \<not> prefix (constMusicFilenameSchemeKey env @ ''='') ''vfat_safe=true''
         \<and> \<not> recognised env u
       \<longrightarrow> vfatSafe (opts (fst (setup_ums env st)))
           \<and> unusedParams (fst (setup_ums env st)) = unusedParams st @ [u]
           \<and> suffix (u @ nl) (the (saveOptions env def (fst (setup_ums env st)))))"
    using 4 by blast
  have c5: "(ls = before @ [l] @ after \<and> l = constVfatSafeKey env @ ''='' @ v
        \<and> CHR ''='' \<notin> set (constVfatSafeKey env)
        \<and> \<not> prefix (constMusicFolderKey @ ''='') l
        \<and> \<not> prefix (constMusicFilenameSchemeKey env @ ''='') l
        \<and> (\<forall>m \<in> set after. \<not> prefix (constVfatSafeKey env @ ''='') m)
      \<longrightarrow> vfatSafe (opts (fst (setup_ums env st)))
            = (takeWhile (\<lambda>c. c \<noteq> CHR ''='') v = ''true''))"
    using b1 by blast
  have c6: "(ls = before @ [l] @ after \<and> l = constAsciiOnlyKey env @ ''='' @ v
        \<and> CHR ''='' \<notin> set (constAsciiOnlyKey env)
        \<and> \<not> prefix (constMusicFolderKey @ ''='') l
        \<and> \<not> prefix (constMusicFilenameSchemeKey env @ ''='') l
        \<and> \<not> prefix (constVfatSafeKey env @ ''='') l
        \<and> (\<forall>m \<in> set after. \<not> prefix (constAsciiOnlyKey env @ ''='') m)
      \<longrightarrow> asciiOnly (opts (fst (setup_ums env st)))
            = (takeWhile (\<lambda>c. c \<noteq> CHR ''='') v = ''true''))"
    using b2 by blast
  have c7: "(ls = before @ [l] @ after \<and> l = constIgnoreTheKey env @ ''='' @ v
        \<and> CHR ''='' \<notin> set (constIgnoreTheKey env)
        \<and> \<not> prefix (constMusicFolderKey @ ''='') l
        \<and> \<not> prefix (constMusicFilenameSchemeKey env @ ''='') l
        \<and> \<not> prefix (constVfatSafeKey env @ ''='') l
        \<and> \<not> prefix (constAsciiOnlyKey env @ ''='') l
        \<and> (\<forall>m \<in> set after. \<not> prefix (constIgnoreTheKey env @ ''='') m)
      \<longrightarrow> ignoreThe (opts (fst (setup_ums env st)))
            = (takeWhile (\<lambda>c. c \<noteq> CHR ''='') v = ''true''))"
    using b3 by blast
  have c8: "(ls = before @ [l] @ after \<and> l = constReplaceSpacesKey env @ ''='' @ v
        \<and> CHR ''='' \<notin> set (constReplaceSpacesKey env)
        \<and> \<not> prefix (constMusicFolderKey @ ''='') l
        \<and> \<not> prefix (constMusicFilenameSchemeKey env @ ''='') l
        \<and> \<not> prefix (constVfatSafeKey env @ ''='') l
        \<and> \<not> prefix (constAsciiOnlyKey env @ ''='') l
        \<and> \<not> prefix (constIgnoreTheKey env @ ''='') l
        \<and> (\<forall>m \<in> set after. \<not> prefix (constReplaceSpacesKey env @ ''='') m)
      \<longrightarrow> replaceSpaces (opts (fst (setup_ums env st)))
            = (takeWhile (\<lambda>c. c \<noteq> CHR ''='') v = ''true''))"
    using b4 by blast
  show ?thesis
    by (intro conjI) (rule 1, rule 2, rule 3, rule c4, rule c5, rule c6, rule c7, rule c8)
qed


lemma ex_connected: "isConnected exUmsEnv"
  by (simp add: isConnected_def exUmsEnv_def)

lemma ex_lines: "readLines exUmsEnv (spacePath exUms @ constSettingsFile) = Some exSettings"
  by (simp add: exUmsEnv_def exUms_def constSettingsFile_def)

lemma ex_writable: "canWrite exUmsEnv (spacePath exUms @ constSettingsFile)"
  by (simp add: exUmsEnv_def)

lemma ex_comment: "\<not> recognised exUmsEnv ''# my player''"
  by (simp add: recognised_def constMusicFolderKey_def constCollectionNameKey_def exUmsEnv_def)

text \<open>
  The example file, and the same file with the second line changed to
  \<open>vfat_safe=false\<close>, to \<open>vfat_safe=TRUE\<close> and to \<open>ascii_only=true\<close>, read into a
  device whose options are the example defaults.
\<close>

theorem settings_round_trip_witness:
  "isConnected exUmsEnv
   \<and> readLines exUmsEnv (spacePath exUms @ constSettingsFile)
       = Some [''audio_folder=Music'', ''vfat_safe=true'', ''# my player'']
   \<and> canWrite exUmsEnv (spacePath exUms @ constSettingsFile)
   \<and> \<not> vfatSafe (opts exUms)
   \<and> vfatSafe (opts (fst (setup_ums exUmsEnv exUms)))
   \<and> unusedParams (fst (setup_ums exUmsEnv exUms)) = [''# my player'']
   \<and> suffix (''# my player'' @ nl)
        (the (saveOptions exUmsEnv exOptions (fst (setup_ums exUmsEnv exUms))))
   \<and> vfatSafe (opts (exUms\<lparr>opts := exOptions\<rparr>))
   \<and> \<not> vfatSafe (opts (fst (setup_ums
          (exUmsEnv\<lparr>readLines :=
             (\<lambda>p. Some [''audio_folder=Music'', ''vfat_safe=false'', ''# my player''])\<rparr>)
          (exUms\<lparr>opts := exOptions\<rparr>))))
   \<and> \<not> vfatSafe (opts (fst (setup_ums
          (exUmsEnv\<lparr>readLines :=
             (\<lambda>p. Some [''audio_folder=Music'', ''vfat_safe=TRUE'', ''# my player''])\<rparr>)
          (exUms\<lparr>opts := exOptions\<rparr>))))
   \<and> \<not> asciiOnly (opts (exUms\<lparr>opts := exOptions\<rparr>))
   \<and> asciiOnly (opts (fst (setup_ums
          (exUmsEnv\<lparr>readLines :=
             (\<lambda>p. Some [''audio_folder=Music'', ''ascii_only=true'', ''# my player''])\<rparr>)
          (exUms\<lparr>opts := exOptions\<rparr>))))"
proof -
  have l: "readLines exUmsEnv (spacePath exUms @ constSettingsFile)
       = Some [''audio_folder=Music'', ''vfat_safe=true'', ''# my player'']"
    using ex_lines by (simp add: exSettings_def)
  have k: "constVfatSafeKey exUmsEnv = ''vfat_safe''"
    "\<not> prefix (constMusicFilenameSchemeKey exUmsEnv @ ''='') ''vfat_safe=true''"
    by (simp_all add: exUmsEnv_def)
  have u: "unusedParams exUms = []" "\<not> vfatSafe (opts exUms)"
    by (simp_all add: exUms_def)
  have "vfatSafe (opts (fst (setup_ums exUmsEnv exUms)))
     \<and> unusedParams (fst (setup_ums exUmsEnv exUms)) = unusedParams exUms @ [''# my player'']
     \<and> suffix (''# my player'' @ nl)
          (the (saveOptions exUmsEnv exOptions (fst (setup_ums exUmsEnv exUms))))"
    by (rule settings_round_trip [OF ex_connected l ex_writable, of exOptions "''# my player''",
          THEN conjunct2, THEN conjunct2, THEN conjunct2, THEN conjunct1, THEN mp])
       (simp add: k ex_comment)
  with u ex_connected l ex_writable have first: "isConnected exUmsEnv
   \<and> readLines exUmsEnv (spacePath exUms @ constSettingsFile)
       = Some [''audio_folder=Music'', ''vfat_safe=true'', ''# my player'']
   \<and> canWrite exUmsEnv (spacePath exUms @ constSettingsFile)
   \<and> \<not> vfatSafe (opts exUms)
   \<and> vfatSafe (opts (fst (setup_ums exUmsEnv exUms)))
   \<and> unusedParams (fst (setup_ums exUmsEnv exUms)) = [''# my player'']
   \<and> suffix (''# my player'' @ nl)
        (the (saveOptions exUmsEnv exOptions (fst (setup_ums exUmsEnv exUms))))"
    by simp
  let ?st = "exUms\<lparr>opts := exOptions\<rparr>"
  have d: "vfatSafe (opts ?st)" "\<not> asciiOnly (opts ?st)"
    by (simp_all add: exOptions_def)
  have c: "isConnected (exUmsEnv\<lparr>readLines := r\<rparr>)" for r
    by (simp add: isConnected_def exUmsEnv_def)
  have w: "canWrite (exUmsEnv\<lparr>readLines := r\<rparr>) (spacePath ?st @ constSettingsFile)" for r
    by (simp add: exUmsEnv_def)
  have r: "readLines (exUmsEnv\<lparr>readLines := (\<lambda>p. Some ls)\<rparr>) (spacePath ?st @ constSettingsFile)
             = Some ls" for ls
    by simp
  have no: "vfatSafe (opts (fst (setup_ums
          (exUmsEnv\<lparr>readLines :=
             (\<lambda>p. Some [''audio_folder=Music'', ''vfat_safe=false'', ''# my player''])\<rparr>) ?st)))
        = (takeWhile (\<lambda>c. c \<noteq> CHR ''='') ''false'' = ''true'')"
    by (rule settings_round_trip [where before = "[''audio_folder=Music'']"
            and l = "''vfat_safe=false''" and v = "''false''" and after = "[''# my player'']",
          OF c r w,
          THEN conjunct2, THEN conjunct2, THEN conjunct2, THEN conjunct2, THEN conjunct1,
          THEN mp])
       (simp add: exUmsEnv_def constMusicFolderKey_def)
  have upper: "vfatSafe (opts (fst (setup_ums
          (exUmsEnv\<lparr>readLines :=
             (\<lambda>p. Some [''audio_folder=Music'', ''vfat_safe=TRUE'', ''# my player''])\<rparr>) ?st)))
        = (takeWhile (\<lambda>c. c \<noteq> CHR ''='') ''TRUE'' = ''true'')"
    by (rule settings_round_trip [where before = "[''audio_folder=Music'']"
            and l = "''vfat_safe=TRUE''" and v = "''TRUE''" and after = "[''# my player'']",
          OF c r w,
          THEN conjunct2, THEN conjunct2, THEN conjunct2, THEN conjunct2, THEN conjunct1,
          THEN mp])
       (simp add: exUmsEnv_def constMusicFolderKey_def)
  have ascii: "asciiOnly (opts (fst (setup_ums
          (exUmsEnv\<lparr>readLines :=
             (\<lambda>p. Some [''audio_folder=Music'', ''ascii_only=true'', ''# my player''])\<rparr>) ?st)))
        = (takeWhile (\<lambda>c. c \<noteq> CHR ''='') ''true'' = ''true'')"
    by (rule settings_round_trip [where before = "[''audio_folder=Music'']"
            and l = "''ascii_only=true''" and v = "''true''" and after = "[''# my player'']",
          OF c r w,
          THEN conjunct2, THEN conjunct2, THEN conjunct2, THEN conjunct2, THEN conjunct2,
          THEN conjunct1, THEN mp])
       (simp add: exUmsEnv_def constMusicFolderKey_def)
  from first d no upper ascii show ?thesis by simp
qed

subsection \<open>The key for VFAT-safe names\<close>

text \<open>
  Claim C1. \<open>saveOptions\<close> guards the line of the VFAT key with the comparison of the
  \<open>scheme\<close>, not of \<open>vfatSafe\<close>. On the example device, whose \<open>vfatSafe\<close> differs from
  the default while its scheme is the default one, the file holds the folder line only;
  with the default \<open>vfatSafe\<close> and another scheme, the file holds the VFAT line.
\<close>

theorem saveOptions_vfat_follows_scheme:
  "vfatSafe (opts exUms) \<noteq> vfatSafe exOptions
   \<and> saveOptions exUmsEnv exOptions exUms = Some (''audio_folder=./Music/'' @ nl)
   \<and> vfatSafe (opts (exUms\<lparr>opts := exOptions\<lparr>scheme := ''%title%''\<rparr>\<rparr>)) = vfatSafe exOptions
   \<and> saveOptions exUmsEnv exOptions (exUms\<lparr>opts := exOptions\<lparr>scheme := ''%title%''\<rparr>\<rparr>)
       = Some (''audio_folder=./Music/'' @ nl @ ''music_filenamescheme=%title%'' @ nl
               @ ''vfat_safe=true'' @ nl)"
proof -
  have 1: "optionLines exUmsEnv exOptions exUms = [''audio_folder=./Music/'']"
    by (simp add: optionLines_def exUms_def exOptions_def constMusicFolderKey_def Let_def)
  have 2: "optionLines exUmsEnv exOptions (exUms\<lparr>opts := exOptions\<lparr>scheme := ''%title%''\<rparr>\<rparr>)
      = [''audio_folder=./Music/'', ''music_filenamescheme=%title%'', ''vfat_safe=true'']"
    by (simp add: optionLines_def exUms_def exOptions_def exUmsEnv_def constMusicFolderKey_def
          toString_def Let_def)
  have 3: "unusedParams exUms = []" "spacePath exUms = ''/mnt/usb/''"
    "vfatSafe (opts exUms) \<noteq> vfatSafe exOptions"
    by (simp_all add: exUms_def exOptions_def)
  have 4: "canWrite exUmsEnv p" for p
    by (simp add: exUmsEnv_def)
  show ?thesis
    using ex_connected 3
    by (simp add: saveOptions_def 1 2 4 nl_def)
qed

end
